theory Spec2Isabelle
  imports Main "HOL-Library.Sublist"
begin

section \<open>Cross-account Redshift backup: the wait loops, the Lambda handler and the clean-up\<close>

text \<open>
  The development embeds the three wait loops of the repository and the Lambda function:
  \<^item> \<open>_wait_for_snapshot_completion\<close> of scripts/native\_snapshot\_demo.py,
  \<^item> \<open>wait_for_backup_completion\<close> of scripts/aws\_backup\_demo.py,
  \<^item> \<open>wait_for_snapshot_completion\<close>, \<open>create_manual_snapshot\<close>,
    \<open>share_snapshot_with_account\<close>, \<open>cleanup_old_snapshots\<close> and \<open>lambda_handler\<close> of
    lambda/aca\_redshift\_backup\_lambda.py.

  Python exceptions (the subclasses of \<open>Exception\<close>, which \<open>except Exception\<close> catches) are
  values of type \<open>exn\<close>; a call that may raise returns \<open>exn + 'a\<close>, with \<open>Inl\<close> for the raise.
  The clock, the number of status queries and of sleeps, the lines written by the \<open>except\<close>
  handlers and by \<open>logger.error\<close>, and the mutating requests sent to the provider are threaded
  through every function as a \<open>world\<close>. The provider is a record of answer functions, \<open>aws\<close>.
  Time is counted in whole seconds. The informational output (\<open>print\<close> and \<open>logger.info\<close> of
  the progress) is not part of the model.
\<close>

subsection \<open>Exceptions\<close>

datatype exn =
    Exception string
  | ValueError string
  | AttributeError string
  | TypeError string
  | KeyError string
  | OverflowError string
  | ClientError string

text \<open>\<open>str(e)\<close>: the message; for a \<open>KeyError\<close> Python prints the key in quotes.\<close>

fun str :: "exn \<Rightarrow> string" where
  "str (Exception m) = m"
| "str (ValueError m) = m"
| "str (AttributeError m) = m"
| "str (TypeError m) = m"
| "str (KeyError k) = [CHR 0x27] @ k @ [CHR 0x27]"
| "str (OverflowError m) = m"
| "str (ClientError m) = m"

subsection \<open>JSON values: the Lambda event and the handler's answer\<close>

text \<open>
  Numbers are integers in this model: clock readings, snapshot creation times and
  \<open>retention_days\<close> are counted in whole seconds and whole days.
\<close>

datatype json =
    JNull
  | JBool bool
  | JNum int
  | JStr string
  | JArr "json list"
  | JObj "(string \<times> json) list"

text \<open>Python truthiness, as \<open>not target_account_id\<close> and \<open>if wait_for_completion\<close> test it.\<close>

fun truthy :: "json \<Rightarrow> bool" where
  "truthy JNull = False"
| "truthy (JBool b) = b"
| "truthy (JNum n) = (n \<noteq> 0)"
| "truthy (JStr s) = (s \<noteq> [])"
| "truthy (JArr xs) = (xs \<noteq> [])"
| "truthy (JObj kvs) = (kvs \<noteq> [])"

fun type_name :: "json \<Rightarrow> string" where
  "type_name JNull = ''NoneType''"
| "type_name (JBool b) = ''bool''"
| "type_name (JNum n) = ''int''"
| "type_name (JStr s) = ''str''"
| "type_name (JArr xs) = ''list''"
| "type_name (JObj kvs) = ''dict''"

text \<open>\<open>event.get(key, default)\<close>: only a dict has the method.\<close>

definition event_get :: "json \<Rightarrow> string \<Rightarrow> json \<Rightarrow> exn + json" where
  "event_get event key dflt =
     (case event of
        JObj kvs \<Rightarrow> (case map_of kvs key of None \<Rightarrow> Inr dflt | Some v \<Rightarrow> Inr v)
      | _ \<Rightarrow> Inl (AttributeError
                 ([CHR 0x27] @ type_name event @ [CHR 0x27] @ '' object has no attribute ''
                  @ [CHR 0x27] @ ''get'' @ [CHR 0x27])))"

subsection \<open>The provider and the world\<close>

text \<open>
  A snapshot as \<open>describe_cluster_snapshots\<close> lists it, with the three fields the code reads.
\<close>

record snapshot =
  SnapshotIdentifier :: string
  Status :: string
  SnapshotCreateTime :: int

datatype request =
    CreateSnapshot string json json
  | AuthorizeAccess string json
  | DeleteSnapshot string

text \<open>
  The answers of the provider. A status query is answered by the number of status queries
  issued before it, so that any sequence of answers can be scripted; the answer comes with
  the seconds the call took. \<open>Inl\<close> stands for any exception raised by the call or by reading
  the fields of its response (\<open>response['Snapshots']\<close>). \<open>strftime\<close> and \<open>isoformat\<close> are the
  two date formats of the standard library, taken as parameters.
\<close>

record aws =
  get_caller_identity :: "exn + string"
  create_cluster_snapshot :: "string \<Rightarrow> json \<Rightarrow> json \<Rightarrow> exn option"
  describe_cluster_snapshots :: "string \<Rightarrow> nat \<Rightarrow> nat \<times> (exn + snapshot list)"
  describe_backup_job :: "string \<Rightarrow> nat \<Rightarrow> nat \<times> (exn + (string \<rightharpoonup> string))"
  authorize_snapshot_access :: "string \<Rightarrow> json \<Rightarrow> exn option"
  describe_manual_snapshots :: "json \<Rightarrow> exn + snapshot list"
  delete_cluster_snapshot :: "string \<Rightarrow> exn option"
  strftime :: "int \<Rightarrow> string"
  isoformat :: "int \<Rightarrow> string"

record world =
  clock :: int
  polls :: nat
  naps :: nat
  logged :: "string list"
  issued :: "request list"
  deleted :: "string list"

text \<open>\<open>time.sleep(n)\<close>.\<close>

definition time_sleep :: "nat \<Rightarrow> world \<Rightarrow> world" where
  "time_sleep n w = w\<lparr>clock := clock w + int n, naps := naps w + 1\<rparr>"

text \<open>
  A line written by an \<open>except\<close> handler (\<open>print\<close>, \<open>logger.error\<close>, \<open>logger.warning\<close>) or by
  the \<open>logger.error\<close> that precedes a \<open>raise\<close>.
\<close>

definition log_line :: "string \<Rightarrow> world \<Rightarrow> world" where
  "log_line l w = w\<lparr>logged := logged w @ [l]\<rparr>"

text \<open>One status query of a snapshot: the call is counted and the clock moves by its latency.\<close>

definition query_snapshot :: "aws \<Rightarrow> string \<Rightarrow> world \<Rightarrow> (exn + snapshot list) \<times> world" where
  "query_snapshot a sid w =
     (case describe_cluster_snapshots a sid (polls w) of
        (lat, resp) \<Rightarrow> (resp, w\<lparr>clock := clock w + int lat, polls := polls w + 1\<rparr>))"

definition query_backup_job :: "aws \<Rightarrow> string \<Rightarrow> world \<Rightarrow> (exn + (string \<rightharpoonup> string)) \<times> world" where
  "query_backup_job a jid w =
     (case describe_backup_job a jid (polls w) of
        (lat, resp) \<Rightarrow> (resp, w\<lparr>clock := clock w + int lat, polls := polls w + 1\<rparr>))"

text \<open>
  The body of a \<open>try:\<close> block inside a loop either returns from the function or falls
  through to the next iteration; a raise is the \<open>Inl\<close> of the sum.
\<close>

datatype 'a attempt = Return 'a | Fallthrough

subsection \<open>scripts/native\_snapshot\_demo.py: \<open>_wait_for_snapshot_completion\<close>\<close>

text \<open>
  The \<open>try:\<close> block of the loop (lines 75 to 89). The \<open>raise\<close> of line 87 is inside the
  block.
\<close>

definition demo_poll_snapshot :: "aws \<Rightarrow> string \<Rightarrow> world \<Rightarrow> (exn + bool attempt) \<times> world" where
  "demo_poll_snapshot a sid w =
     (case query_snapshot a sid w of
        (Inl e, w1) \<Rightarrow> (Inl e, w1)
      | (Inr snaps, w1) \<Rightarrow>
          (case snaps of
             [] \<Rightarrow> (Inr Fallthrough, time_sleep 30 w1)
           | s # _ \<Rightarrow>
               if Status s = ''available'' then (Inr (Return True), w1)
               else if Status s = ''failed'' then (Inl (Exception ''Snapshot creation failed''), w1)
               else (Inr Fallthrough, time_sleep 30 w1)))"

text \<open>
  The \<open>while\<close> loop (lines 74 to 95): the \<open>except Exception\<close> handler of lines 91 to 93
  prints and sleeps, and the loop goes on; after the loop, line 95 raises.
\<close>

function demo_wait_loop :: "aws \<Rightarrow> string \<Rightarrow> int \<Rightarrow> int \<Rightarrow> world \<Rightarrow> (exn + bool) \<times> world" where
  "demo_wait_loop a sid start_time timeout w =
     (if clock w - start_time < timeout then
        (case demo_poll_snapshot a sid w of
           (Inr (Return v), w1) \<Rightarrow> (Inr v, w1)
         | (Inr Fallthrough, w1) \<Rightarrow> demo_wait_loop a sid start_time timeout w1
         | (Inl e, w1) \<Rightarrow>
             demo_wait_loop a sid start_time timeout
               (time_sleep 30 (log_line (''Error checking snapshot status: '' @ str e) w1)))
      else (Inl (Exception ''Timeout waiting for snapshot completion''), w))"
  by pat_completeness auto
termination
  by (relation "measure (\<lambda>(a, sid, start_time, timeout, w). nat (timeout - (clock w - start_time)))")
    (auto simp: demo_poll_snapshot_def query_snapshot_def time_sleep_def log_line_def
      split: prod.splits sum.splits list.splits if_splits)

declare demo_wait_loop.simps [simp del]

definition demo_wait_for_snapshot_completion ::
  "aws \<Rightarrow> string \<Rightarrow> int \<Rightarrow> world \<Rightarrow> (exn + bool) \<times> world" where
  "demo_wait_for_snapshot_completion a sid timeout w = demo_wait_loop a sid (clock w) timeout w"

subsection \<open>scripts/aws\_backup\_demo.py: \<open>wait_for_backup_completion\<close>\<close>

text \<open>
  The response of \<open>describe_backup_job\<close> is a dict; reading a key it lacks raises
  \<open>KeyError\<close>.
\<close>

definition subscript :: "(string \<rightharpoonup> string) \<Rightarrow> string \<Rightarrow> exn + string" where
  "subscript d k = (case d k of None \<Rightarrow> Inl (KeyError k) | Some v \<Rightarrow> Inr v)"

text \<open>The \<open>try:\<close> block of the loop (lines 220 to 233); the \<open>raise\<close> of line 231 is inside it.\<close>

definition poll_backup_job :: "aws \<Rightarrow> string \<Rightarrow> world \<Rightarrow> (exn + string attempt) \<times> world" where
  "poll_backup_job a jid w =
     (case query_backup_job a jid w of
        (Inl e, w1) \<Rightarrow> (Inl e, w1)
      | (Inr response, w1) \<Rightarrow>
          (case subscript response ''State'' of
             Inl e \<Rightarrow> (Inl e, w1)
           | Inr status \<Rightarrow>
               if status = ''COMPLETED'' then
                 (case subscript response ''RecoveryPointArn'' of
                    Inl e \<Rightarrow> (Inl e, w1)
                  | Inr recovery_point_arn \<Rightarrow> (Inr (Return recovery_point_arn), w1))
               else if status \<in> set [''FAILED'', ''ABORTED'', ''EXPIRED''] then
                 (Inl (Exception (''Backup job failed with status: '' @ status)), w1)
               else (Inr Fallthrough, time_sleep 60 w1)))"

text \<open>The \<open>while\<close> loop (lines 219 to 239); line 239 raises after the loop.\<close>

function backup_wait_loop :: "aws \<Rightarrow> string \<Rightarrow> int \<Rightarrow> int \<Rightarrow> world \<Rightarrow> (exn + string) \<times> world" where
  "backup_wait_loop a jid start_time timeout w =
     (if clock w - start_time < timeout then
        (case poll_backup_job a jid w of
           (Inr (Return v), w1) \<Rightarrow> (Inr v, w1)
         | (Inr Fallthrough, w1) \<Rightarrow> backup_wait_loop a jid start_time timeout w1
         | (Inl e, w1) \<Rightarrow>
             backup_wait_loop a jid start_time timeout
               (time_sleep 60 (log_line (''Error checking backup status: '' @ str e) w1)))
      else (Inl (Exception ''Timeout waiting for backup completion''), w))"
  by pat_completeness auto
termination
  by (relation "measure (\<lambda>(a, jid, start_time, timeout, w). nat (timeout - (clock w - start_time)))")
    (auto simp: poll_backup_job_def query_backup_job_def time_sleep_def log_line_def
      split: prod.splits sum.splits list.splits if_splits)

declare backup_wait_loop.simps [simp del]

definition wait_for_backup_completion ::
  "aws \<Rightarrow> string \<Rightarrow> int \<Rightarrow> world \<Rightarrow> (exn + string) \<times> world" where
  "wait_for_backup_completion a jid timeout w = backup_wait_loop a jid (clock w) timeout w"

subsection \<open>lambda/aca\_redshift\_backup\_lambda.py: \<open>wait_for_snapshot_completion\<close>\<close>

text \<open>
  The \<open>try:\<close> block of the loop (lines 64 to 80); line 77 logs an error and line 78 raises,
  inside the block.
\<close>

definition poll_snapshot :: "aws \<Rightarrow> string \<Rightarrow> world \<Rightarrow> (exn + bool attempt) \<times> world" where
  "poll_snapshot a sid w =
     (case query_snapshot a sid w of
        (Inl e, w1) \<Rightarrow> (Inl e, w1)
      | (Inr snaps, w1) \<Rightarrow>
          (case snaps of
             [] \<Rightarrow> (Inr Fallthrough, time_sleep 30 w1)
           | s # _ \<Rightarrow>
               if Status s = ''available'' then (Inr (Return True), w1)
               else if Status s = ''failed'' then
                 (Inl (Exception ''Snapshot creation failed''),
                  log_line ''Snapshot creation failed'' w1)
               else (Inr Fallthrough, time_sleep 30 w1)))"

text \<open>
  The \<open>while\<close> loop (lines 63 to 88); after the loop, line 88 returns \<open>False\<close>.
\<close>

function wait_loop :: "aws \<Rightarrow> string \<Rightarrow> int \<Rightarrow> int \<Rightarrow> world \<Rightarrow> (exn + bool) \<times> world" where
  "wait_loop a sid start_time max_wait_seconds w =
     (if clock w - start_time < max_wait_seconds then
        (case poll_snapshot a sid w of
           (Inr (Return v), w1) \<Rightarrow> (Inr v, w1)
         | (Inr Fallthrough, w1) \<Rightarrow> wait_loop a sid start_time max_wait_seconds w1
         | (Inl e, w1) \<Rightarrow>
             wait_loop a sid start_time max_wait_seconds
               (time_sleep 30 (log_line (''Error checking snapshot status: '' @ str e) w1)))
      else (Inr False, w))"
  by pat_completeness auto
termination
  by (relation "measure (\<lambda>(a, sid, start_time, m, w). nat (m - (clock w - start_time)))")
    (auto simp: poll_snapshot_def query_snapshot_def time_sleep_def log_line_def
      split: prod.splits sum.splits list.splits if_splits)

declare wait_loop.simps [simp del]

definition wait_for_snapshot_completion ::
  "aws \<Rightarrow> string \<Rightarrow> int \<Rightarrow> world \<Rightarrow> (exn + bool) \<times> world" where
  "wait_for_snapshot_completion a sid max_wait_minutes w =
     wait_loop a sid (clock w) (max_wait_minutes * 60) w"

subsection \<open>lambda/aca\_redshift\_backup\_lambda.py: creating, sharing, cleaning up\<close>

text \<open>
  \<open>create_manual_snapshot\<close> (lines 31 to 55): the request is sent with the identifier built
  from the clock; its failure is logged and raised again.
\<close>

definition create_manual_snapshot :: "aws \<Rightarrow> json \<Rightarrow> json \<Rightarrow> world \<Rightarrow> (exn + string) \<times> world" where
  "create_manual_snapshot a cluster_identifier target_account_id w =
     (let timestamp = strftime a (clock w);
          snapshot_identifier = ''aca-lambda-snapshot-'' @ timestamp;
          w1 = w\<lparr>issued := issued w
                  @ [CreateSnapshot snapshot_identifier cluster_identifier target_account_id]\<rparr>
      in case create_cluster_snapshot a snapshot_identifier cluster_identifier target_account_id of
           None \<Rightarrow> (Inr snapshot_identifier, w1)
         | Some e \<Rightarrow> (Inl e, log_line (''Error creating snapshot: '' @ str e) w1))"

text \<open>\<open>share_snapshot_with_account\<close> (lines 90 to 105).\<close>

definition share_snapshot_with_account :: "aws \<Rightarrow> string \<Rightarrow> json \<Rightarrow> world \<Rightarrow> bool \<times> world" where
  "share_snapshot_with_account a snapshot_identifier target_account_id w =
     (let w1 = w\<lparr>issued := issued w @ [AuthorizeAccess snapshot_identifier target_account_id]\<rparr>
      in case authorize_snapshot_access a snapshot_identifier target_account_id of
           None \<Rightarrow> (True, w1)
         | Some e \<Rightarrow> (False, log_line (''Error sharing snapshot: '' @ str e) w1))"

text \<open>
  \<open>retention_days * 24 * 3600\<close> subtracted from the clock reading (line 119), for every value
  the event can carry. The clock reading is a float, so the integer product is converted to a
  float before the subtraction: an integer whose magnitude rounds to \<open>2 ^ 1024\<close> raises
  \<open>OverflowError\<close>. A string or a list is repeated and then cannot be subtracted, \<open>None\<close> and a
  dict cannot be multiplied.
\<close>

definition float_limit :: int where
  "float_limit = 2 ^ 1024 - 2 ^ 970"

definition quoted :: "string \<Rightarrow> string" where
  "quoted s = [CHR 0x27] @ s @ [CHR 0x27]"

fun cutoff_time :: "int \<Rightarrow> json \<Rightarrow> exn + int" where
  "cutoff_time now (JNum n) =
     (if \<bar>n * 24 * 3600\<bar> < float_limit then Inr (now - n * 24 * 3600)
      else Inl (OverflowError ''int too large to convert to float''))"
| "cutoff_time now (JBool b) = Inr (now - (if b then 1 else 0) * 24 * 3600)"
| "cutoff_time now (JStr s) =
     Inl (TypeError (''unsupported operand type(s) for -: '' @ quoted ''float'' @ '' and ''
                     @ quoted ''str''))"
| "cutoff_time now (JArr xs) =
     Inl (TypeError (''unsupported operand type(s) for -: '' @ quoted ''float'' @ '' and ''
                     @ quoted ''list''))"
| "cutoff_time now v =
     Inl (TypeError (''unsupported operand type(s) for *: '' @ quoted (type_name v) @ '' and ''
                     @ quoted ''int''))"

text \<open>
  \<open>delete_cluster_snapshot\<close> as a request: it is recorded as issued, and the snapshot is
  deleted when the provider accepts it.
\<close>

definition delete_snapshot :: "aws \<Rightarrow> string \<Rightarrow> world \<Rightarrow> exn option \<times> world" where
  "delete_snapshot a sid w =
     (case delete_cluster_snapshot a sid of
        None \<Rightarrow> (None, w\<lparr>issued := issued w @ [DeleteSnapshot sid],
                          deleted := deleted w @ [sid]\<rparr>)
      | Some e \<Rightarrow> (Some e, w\<lparr>issued := issued w @ [DeleteSnapshot sid]\<rparr>))"

text \<open>The \<open>for\<close> loop of lines 121 to 136, with \<open>deleted_count\<close> as accumulator.\<close>

fun cleanup_loop :: "aws \<Rightarrow> int \<Rightarrow> snapshot list \<Rightarrow> nat \<Rightarrow> world \<Rightarrow> nat \<times> world" where
  "cleanup_loop a cutoff [] deleted_count w = (deleted_count, w)"
| "cleanup_loop a cutoff (snapshot # rest) deleted_count w =
     (let snapshot_id = SnapshotIdentifier snapshot in
      if prefix ''aca-lambda-snapshot-'' snapshot_id then
        (let snapshot_time = SnapshotCreateTime snapshot in
         if snapshot_time < cutoff then
           (case delete_snapshot a snapshot_id w of
              (None, w1) \<Rightarrow> cleanup_loop a cutoff rest (deleted_count + 1) w1
            | (Some e, w1) \<Rightarrow>
                cleanup_loop a cutoff rest deleted_count
                  (log_line (''Could not delete snapshot '' @ snapshot_id @ '': '' @ str e) w1))
         else cleanup_loop a cutoff rest deleted_count w)
      else cleanup_loop a cutoff rest deleted_count w)"

text \<open>\<open>cleanup_old_snapshots\<close> (lines 107 to 143); the outer handler returns 0.\<close>

definition cleanup_old_snapshots :: "aws \<Rightarrow> json \<Rightarrow> json \<Rightarrow> world \<Rightarrow> nat \<times> world" where
  "cleanup_old_snapshots a cluster_identifier retention_days w =
     (case describe_manual_snapshots a cluster_identifier of
        Inl e \<Rightarrow> (0, log_line (''Error during cleanup: '' @ str e) w)
      | Inr snapshots \<Rightarrow>
          (case cutoff_time (clock w) retention_days of
             Inl e \<Rightarrow> (0, log_line (''Error during cleanup: '' @ str e) w)
           | Inr cutoff \<Rightarrow> cleanup_loop a cutoff snapshots 0 w))"

subsection \<open>lambda/aca\_redshift\_backup\_lambda.py: \<open>lambda_handler\<close>\<close>

text \<open>
  The \<open>try:\<close> block of the handler (lines 161 to 204). The constructor of line 171 asks STS
  for the caller's identity and may raise. The \<open>context\<close> argument is never read.
\<close>

definition handler_body :: "aws \<Rightarrow> json \<Rightarrow> world \<Rightarrow> (exn + (string \<rightharpoonup> json)) \<times> world" where
  "handler_body a event w =
     (case event_get event ''cluster_identifier'' (JStr ''aca-redshift-cluster'') of
        Inl e \<Rightarrow> (Inl e, w)
      | Inr cluster_identifier \<Rightarrow>
     (case event_get event ''target_account_id'' JNull of
        Inl e \<Rightarrow> (Inl e, w)
      | Inr target_account_id \<Rightarrow>
     (case event_get event ''retention_days'' (JNum 7) of
        Inl e \<Rightarrow> (Inl e, w)
      | Inr retention_days \<Rightarrow>
     (case event_get event ''wait_for_completion'' (JBool False) of
        Inl e \<Rightarrow> (Inl e, w)
      | Inr wait_for_completion \<Rightarrow>
     if \<not> truthy target_account_id then (Inl (ValueError ''target_account_id is required''), w)
     else
     (case get_caller_identity a of
        Inl e \<Rightarrow> (Inl e, w)
      | Inr source_account_id \<Rightarrow>
     (case create_manual_snapshot a cluster_identifier target_account_id w of
        (Inl e, w1) \<Rightarrow> (Inl e, w1)
      | (Inr snapshot_id, w1) \<Rightarrow>
     (let result = [''statusCode'' \<mapsto> JNum 200,
                    ''snapshot_id'' \<mapsto> JStr snapshot_id,
                    ''cluster_identifier'' \<mapsto> cluster_identifier,
                    ''target_account_id'' \<mapsto> target_account_id,
                    ''timestamp'' \<mapsto> JStr (isoformat a (clock w1)),
                    ''status'' \<mapsto> JStr ''snapshot_initiated'']
      in
      case
        (if truthy wait_for_completion then
           (case wait_for_snapshot_completion a snapshot_id 10 w1 of
              (Inl e, w2) \<Rightarrow> (Inl e, w2)
            | (Inr completed, w2) \<Rightarrow>
                if completed then
                  (case share_snapshot_with_account a snapshot_id target_account_id w2 of
                     (shared, w3) \<Rightarrow>
                       (Inr (result(''shared'' \<mapsto> JBool shared,
                                    ''status'' \<mapsto> JStr (if shared then ''completed_and_shared''
                                                         else ''completed_not_shared''))), w3))
                else (Inr (result(''status'' \<mapsto> JStr ''snapshot_in_progress'')), w2))
         else (Inr (result(''status'' \<mapsto> JStr ''snapshot_initiated_async'')), w1))
      of
        (Inl e, w4) \<Rightarrow> (Inl e, w4)
      | (Inr result, w4) \<Rightarrow>
          (case cleanup_old_snapshots a cluster_identifier retention_days w4 of
             (deleted_count, w5) \<Rightarrow>
               (Inr (result(''cleaned_up_snapshots'' \<mapsto> JNum (int deleted_count))), w5)))))))))"

text \<open>
  \<open>lambda_handler\<close> (lines 145 to 212): the \<open>except Exception\<close> handler of lines 206 to 212
  turns every raise of the block into the 500 answer. The only statement outside the block
  is the \<open>json.dumps(event)\<close> of line 158, which serialises every value of type \<open>json\<close>.
\<close>

definition lambda_handler :: "aws \<Rightarrow> json \<Rightarrow> world \<Rightarrow> (exn + (string \<rightharpoonup> json)) \<times> world" where
  "lambda_handler a event w =
     (case handler_body a event w of
        (Inr result, w1) \<Rightarrow> (Inr result, w1)
      | (Inl e, w1) \<Rightarrow>
          (Inr [''statusCode'' \<mapsto> JNum 500,
                ''error'' \<mapsto> JStr (str e),
                ''timestamp'' \<mapsto> JStr (isoformat a (clock w1))],
           log_line (''Lambda execution failed: '' @ str e) w1))"

subsection \<open>Concrete providers and worlds for the examples\<close>

definition script :: "'a list \<Rightarrow> 'a \<Rightarrow> nat \<Rightarrow> 'a" where
  "script xs d k = (if k < length xs then xs ! k else d)"

definition snap :: "string \<Rightarrow> string \<Rightarrow> int \<Rightarrow> snapshot" where
  "snap sid st t = \<lparr>SnapshotIdentifier = sid, Status = st, SnapshotCreateTime = t\<rparr>"

definition job :: "string \<Rightarrow> string \<rightharpoonup> string" where
  "job st = [''State'' \<mapsto> st, ''RecoveryPointArn'' \<mapsto> ''arn:aws:backup:rp-1'']"

definition quiet_aws :: aws where
  "quiet_aws =
     \<lparr>get_caller_identity = Inr ''111122223333'',
      create_cluster_snapshot = (\<lambda>sid cluster target. None),
      describe_cluster_snapshots = (\<lambda>sid k. (0, Inr [snap sid ''creating'' 0])),
      describe_backup_job = (\<lambda>jid k. (0, Inr (job ''RUNNING''))),
      authorize_snapshot_access = (\<lambda>sid target. None),
      describe_manual_snapshots = (\<lambda>cluster. Inr []),
      delete_cluster_snapshot = (\<lambda>sid. None),
      strftime = (\<lambda>t. ''20250101-000000''),
      isoformat = (\<lambda>t. ''2025-01-01T00:00:00'')\<rparr>"

definition snapshot_statuses :: "string list \<Rightarrow> aws" where
  "snapshot_statuses sts =
     quiet_aws\<lparr>describe_cluster_snapshots :=
       (\<lambda>sid k. (0, Inr [snap sid (script sts ''creating'' k) 0]))\<rparr>"

definition job_states :: "string list \<Rightarrow> aws" where
  "job_states sts =
     quiet_aws\<lparr>describe_backup_job := (\<lambda>jid k. (0, Inr (job (script sts ''RUNNING'' k))))\<rparr>"

text \<open>
  A provider whose status queries fail twice with a throttling error and succeed from the
  third on, and one whose operations are already finished.
\<close>

definition flaky_aws :: aws where
  "flaky_aws =
     quiet_aws\<lparr>describe_cluster_snapshots :=
       (\<lambda>sid k. (0, script [Inl (ClientError ''Throttling''), Inl (ClientError ''Throttling'')]
                        (Inr [snap sid ''available'' 0]) k)),
      describe_backup_job :=
       (\<lambda>jid k. (0, script [Inl (ClientError ''Throttling''), Inl (ClientError ''Throttling'')]
                        (Inr (job ''COMPLETED'')) k))\<rparr>"

definition settled_aws :: aws where
  "settled_aws =
     quiet_aws\<lparr>describe_cluster_snapshots := (\<lambda>sid k. (0, Inr [snap sid ''available'' 0])),
               describe_backup_job := (\<lambda>jid k. (0, Inr (job ''COMPLETED'')))\<rparr>"

text \<open>
  A cluster with four manual snapshots, listed with their creation times in seconds: two old
  snapshots of the Lambda, of which the provider refuses to delete the second, a recent
  snapshot of the Lambda and an old snapshot of the demo script.
\<close>

definition cluttered_aws :: aws where
  "cluttered_aws =
     quiet_aws\<lparr>describe_manual_snapshots :=
       (\<lambda>cluster. Inr [snap ''aca-lambda-snapshot-20240101-000000'' ''available'' 100000,
                        snap ''aca-lambda-snapshot-20250101-000000'' ''available'' 900000,
                        snap ''demo-snapshot-20240101-000000'' ''available'' 100000,
                        snap ''aca-lambda-snapshot-20240102-000000'' ''available'' 186400]),
      delete_cluster_snapshot :=
       (\<lambda>sid. if sid = ''aca-lambda-snapshot-20240102-000000''
              then Some (ClientError ''InvalidClusterSnapshotState'') else None)\<rparr>"

text \<open>
  A provider whose snapshots are available at once, and which refuses the sharing and the
  listing of the manual snapshots; and one whose snapshots report \<open>failed\<close>.
\<close>

definition grudging_aws :: aws where
  "grudging_aws =
     settled_aws\<lparr>authorize_snapshot_access :=
                   (\<lambda>sid target. Some (ClientError ''AuthorizationNotFound'')),
                 describe_manual_snapshots := (\<lambda>cluster. Inl (ClientError ''AccessDenied''))\<rparr>"

definition broken_aws :: aws where
  "broken_aws =
     quiet_aws\<lparr>describe_cluster_snapshots := (\<lambda>sid k. (0, Inr [snap sid ''failed'' 0]))\<rparr>"

text \<open>The test event of the source file (line 217), and an event that names no target.\<close>

definition test_event :: json where
  "test_event =
     JObj [(''cluster_identifier'', JStr ''aca-redshift-cluster''),
           (''target_account_id'', JStr ''058264155998''),
           (''retention_days'', JNum 7),
           (''wait_for_completion'', JBool True)]"

definition event_without_target :: json where
  "event_without_target = JObj [(''cluster_identifier'', JStr ''aca-redshift-cluster'')]"

definition w0 :: world where
  "w0 = \<lparr>clock = 1000, polls = 0, naps = 0, logged = [], issued = [], deleted = []\<rparr>"

subsection \<open>What the loops count as a terminal status\<close>

text \<open>
  The comparisons of the three \<open>try:\<close> blocks, as predicates on the answer to a status
  query: \<open>status == 'available'\<close> and \<open>status == 'failed'\<close> on the first listed snapshot,
  \<open>status == 'COMPLETED'\<close> and \<open>status in ['FAILED', 'ABORTED', 'EXPIRED']\<close> on the state of
  the backup job.
\<close>

definition snapshot_available :: "exn + snapshot list \<Rightarrow> bool" where
  "snapshot_available r =
     (case r of
        Inl e \<Rightarrow> False
      | Inr snaps \<Rightarrow> (case snaps of [] \<Rightarrow> False | s # _ \<Rightarrow> Status s = ''available''))"

definition snapshot_failed :: "exn + snapshot list \<Rightarrow> bool" where
  "snapshot_failed r =
     (case r of
        Inl e \<Rightarrow> False
      | Inr snaps \<Rightarrow> (case snaps of [] \<Rightarrow> False | s # _ \<Rightarrow> Status s = ''failed''))"

definition job_completed :: "exn + (string \<rightharpoonup> string) \<Rightarrow> bool" where
  "job_completed r =
     (case r of Inl e \<Rightarrow> False | Inr response \<Rightarrow> response ''State'' = Some ''COMPLETED'')"

definition job_failed :: "exn + (string \<rightharpoonup> string) \<Rightarrow> bool" where
  "job_failed r =
     (case r of
        Inl e \<Rightarrow> False
      | Inr response \<Rightarrow>
          (case response ''State'' of
             None \<Rightarrow> False
           | Some status \<Rightarrow> status \<in> set [''FAILED'', ''ABORTED'', ''EXPIRED'']))"

text \<open>The payload of a success answer of the backup service: the recovery point of line 227.\<close>

definition recovery_point :: "exn + (string \<rightharpoonup> string) \<Rightarrow> string option" where
  "recovery_point r =
     (case r of
        Inl e \<Rightarrow> None
      | Inr response \<Rightarrow>
          if response ''State'' = Some ''COMPLETED'' then response ''RecoveryPointArn'' else None)"

subsection \<open>Notions used in the statements about the Lambda\<close>

text \<open>
  A snapshot that \<open>cleanup_old_snapshots\<close> is meant to delete: its identifier starts with the
  prefix of the Lambda's snapshots and it was created before the cutoff.
\<close>

definition stale :: "int \<Rightarrow> snapshot \<Rightarrow> bool" where
  "stale cutoff s =
     (prefix ''aca-lambda-snapshot-'' (SnapshotIdentifier s) \<and> SnapshotCreateTime s < cutoff)"

text \<open>
  The timestamps of \<open>datetime\<close> objects (years 1 to 9999) lie in this range. For whole
  seconds in this range and a product below \<open>float_limit\<close>, the comparison of floats of
  line 128 agrees with the comparison of the integers: a difference below \<open>2 ^ 53\<close> in
  magnitude is computed exactly, and a larger one decides the comparison by its sign alone.
\<close>

definition datetime_range :: "int \<Rightarrow> bool" where
  "datetime_range t = (\<bar>t\<bar> < 2 ^ 40)"

text \<open>The event carries a truthy \<open>target_account_id\<close>.\<close>

definition has_target :: "json \<Rightarrow> bool" where
  "has_target event =
     (case event_get event ''target_account_id'' JNull of
        Inl e \<Rightarrow> False
      | Inr target_account_id \<Rightarrow> truthy target_account_id)"

text \<open>
  Snapshot creation succeeds: the event is a dict with a truthy target, the constructor gets
  the caller's identity, and the provider accepts the \<open>create_cluster_snapshot\<close> request that
  \<open>create_manual_snapshot\<close> sends at the time of the call.
\<close>

definition creation_succeeds :: "aws \<Rightarrow> json \<Rightarrow> world \<Rightarrow> bool" where
  "creation_succeeds a event w =
     (case event_get event ''cluster_identifier'' (JStr ''aca-redshift-cluster'') of
        Inl e \<Rightarrow> False
      | Inr cluster_identifier \<Rightarrow>
          (case event_get event ''target_account_id'' JNull of
             Inl e \<Rightarrow> False
           | Inr target_account_id \<Rightarrow>
               truthy target_account_id
               \<and> (case get_caller_identity a of Inl e \<Rightarrow> False | Inr account \<Rightarrow> True)
               \<and> create_cluster_snapshot a (''aca-lambda-snapshot-'' @ strftime a (clock w))
                    cluster_identifier target_account_id = None))"

text \<open>The event asks the handler to wait for the snapshot.\<close>

definition waits :: "json \<Rightarrow> bool" where
  "waits event =
     (case event_get event ''wait_for_completion'' (JBool False) of
        Inl e \<Rightarrow> False
      | Inr wait_for_completion \<Rightarrow> truthy wait_for_completion)"

text \<open>A field of the dictionary the handler returns, and the test that it holds a string.\<close>

definition answer_field :: "(exn + (string \<rightharpoonup> json)) \<times> world \<Rightarrow> string \<Rightarrow> json option" where
  "answer_field r key = (case fst r of Inl e \<Rightarrow> None | Inr result \<Rightarrow> result key)"

definition is_text :: "json option \<Rightarrow> bool" where
  "is_text v = (case v of Some (JStr s) \<Rightarrow> True | _ \<Rightarrow> False)"

section \<open>Properties\<close>

subsection \<open>The loop of scripts/native\_snapshot\_demo.py, one iteration at a time\<close>

lemma demo_loop_stop:
  "\<not> clock w - st < t \<Longrightarrow>
     demo_wait_loop a sid st t w = (Inl (Exception ''Timeout waiting for snapshot completion''), w)"
  by (simp add: demo_wait_loop.simps)

lemma demo_loop_available:
  "clock w - st < t \<Longrightarrow> snapshot_available (snd (describe_cluster_snapshots a sid (polls w))) \<Longrightarrow>
     demo_wait_loop a sid st t w =
       (Inr True, w\<lparr>clock := clock w + int (fst (describe_cluster_snapshots a sid (polls w))),
                    polls := polls w + 1\<rparr>)"
  by (subst demo_wait_loop.simps)
    (auto simp: demo_poll_snapshot_def query_snapshot_def snapshot_available_def
      split: prod.splits sum.splits list.splits)

lemma demo_loop_error:
  "clock w - st < t \<Longrightarrow> snd (describe_cluster_snapshots a sid (polls w)) = Inl e \<Longrightarrow>
     demo_wait_loop a sid st t w =
       demo_wait_loop a sid st t
         (time_sleep 30 (log_line (''Error checking snapshot status: '' @ str e)
            (snd (query_snapshot a sid w))))"
  by (subst demo_wait_loop.simps)
    (auto simp: demo_poll_snapshot_def query_snapshot_def split: prod.splits sum.splits)

lemma demo_loop_step:
  "clock w - st < t \<Longrightarrow> \<not> snapshot_available (snd (describe_cluster_snapshots a sid (polls w))) \<Longrightarrow>
     \<exists>w'. demo_wait_loop a sid st t w = demo_wait_loop a sid st t w'
        \<and> polls w' = polls w + 1
        \<and> clock w' = clock w + int (fst (describe_cluster_snapshots a sid (polls w))) + 30
        \<and> naps w' = naps w + 1"
  by (subst demo_wait_loop.simps)
    (auto simp: demo_poll_snapshot_def query_snapshot_def snapshot_available_def
      time_sleep_def log_line_def
      split: prod.splits sum.splits list.splits)

lemma demo_loop_induct [case_names stop available step]:
  assumes stop: "\<And>w. \<not> clock w - st < t \<Longrightarrow> P w"
    and available: "\<And>w. clock w - st < t \<Longrightarrow>
        snapshot_available (snd (describe_cluster_snapshots a sid (polls w))) \<Longrightarrow> P w"
    and step: "\<And>w w'. clock w - st < t \<Longrightarrow>
        \<not> snapshot_available (snd (describe_cluster_snapshots a sid (polls w))) \<Longrightarrow>
        demo_wait_loop a sid st t w = demo_wait_loop a sid st t w' \<Longrightarrow>
        polls w' = polls w + 1 \<Longrightarrow>
        clock w' = clock w + int (fst (describe_cluster_snapshots a sid (polls w))) + 30 \<Longrightarrow>
        naps w' = naps w + 1 \<Longrightarrow> P w' \<Longrightarrow> P w"
  shows "P w"
proof (induction "nat (t - (clock w - st))" arbitrary: w rule: less_induct)
  case less
  show ?case
  proof (cases "clock w - st < t")
    case False
    then show ?thesis by (rule stop)
  next
    case True
    show ?thesis
    proof (cases "snapshot_available (snd (describe_cluster_snapshots a sid (polls w)))")
      case True
      with \<open>clock w - st < t\<close> show ?thesis by (rule available)
    next
      case False
      from demo_loop_step [OF True False] obtain w' where
        w': "demo_wait_loop a sid st t w = demo_wait_loop a sid st t w'"
          "polls w' = polls w + 1"
          "clock w' = clock w + int (fst (describe_cluster_snapshots a sid (polls w))) + 30"
          "naps w' = naps w + 1"
        by blast
      have "nat (t - (clock w' - st)) < nat (t - (clock w - st))"
        using True w'(3) by simp
      then have "P w'" by (rule less.hyps)
      with True False w' show ?thesis by (rule step)
    qed
  qed
qed

lemma demo_loop_polls_mono:
  "polls w \<le> polls (snd (demo_wait_loop a sid st t w))"
proof (induction w rule: demo_loop_induct [where a = a and sid = sid and st = st and t = t])
  case (stop w)
  then show ?case by (simp add: demo_loop_stop)
next
  case (available w)
  then show ?case by (simp add: demo_loop_available)
next
  case (step w w')
  then show ?case by simp
qed

lemma demo_loop_timeout_unless_available:
  "(\<forall>k. polls w \<le> k \<and> k < polls (snd (demo_wait_loop a sid st t w)) \<longrightarrow>
        \<not> snapshot_available (snd (describe_cluster_snapshots a sid k))) \<Longrightarrow>
   fst (demo_wait_loop a sid st t w) = Inl (Exception ''Timeout waiting for snapshot completion'')
   \<and> t \<le> clock (snd (demo_wait_loop a sid st t w)) - st"
proof (induction w rule: demo_loop_induct [where a = a and sid = sid and st = st and t = t])
  case (stop w)
  then show ?case by (simp add: demo_loop_stop)
next
  case (available w)
  then show ?case by (simp add: demo_loop_available)
next
  case (step w w')
  have "polls w' \<le> polls (snd (demo_wait_loop a sid st t w'))" by (rule demo_loop_polls_mono)
  with step show ?case by simp
qed

subsection \<open>The loop of scripts/aws\_backup\_demo.py, one iteration at a time\<close>

lemma backup_loop_stop:
  "\<not> clock w - st < t \<Longrightarrow>
     backup_wait_loop a jid st t w = (Inl (Exception ''Timeout waiting for backup completion''), w)"
  by (simp add: backup_wait_loop.simps)

lemma poll_backup_job_Some:
  assumes "recovery_point (snd (describe_backup_job a jid (polls w))) = Some arn"
  shows "poll_backup_job a jid w = (Inr (Return arn), snd (query_backup_job a jid w))"
proof -
  obtain lat r where d: "describe_backup_job a jid (polls w) = (lat, r)"
    by (cases "describe_backup_job a jid (polls w)")
  show ?thesis
  proof (cases r)
    case (Inl e)
    with d assms show ?thesis by (simp add: recovery_point_def)
  next
    case (Inr response)
    with d assms have "response ''State'' = Some ''COMPLETED''"
      and "response ''RecoveryPointArn'' = Some arn"
      by (simp_all add: recovery_point_def split: if_splits)
    with d Inr show ?thesis
      by (simp add: poll_backup_job_def subscript_def query_backup_job_def)
  qed
qed

lemma poll_backup_job_None:
  assumes "recovery_point (snd (describe_backup_job a jid (polls w))) = None"
  shows "(\<exists>e. poll_backup_job a jid w = (Inl e, snd (query_backup_job a jid w)))
     \<or> poll_backup_job a jid w = (Inr Fallthrough, time_sleep 60 (snd (query_backup_job a jid w)))"
proof -
  obtain lat r where d: "describe_backup_job a jid (polls w) = (lat, r)"
    by (cases "describe_backup_job a jid (polls w)")
  show ?thesis
  proof (cases r)
    case (Inl e)
    with d show ?thesis by (simp add: poll_backup_job_def query_backup_job_def)
  next
    case (Inr response)
    show ?thesis
    proof (cases "response ''State''")
      case None
      with d Inr show ?thesis by (simp add: poll_backup_job_def subscript_def query_backup_job_def)
    next
      case (Some status)
      show ?thesis
      proof (cases "status = ''COMPLETED''")
        case True
        with d Inr Some assms have "response ''RecoveryPointArn'' = None"
          by (simp add: recovery_point_def)
        with d Inr Some True show ?thesis
          by (simp add: poll_backup_job_def subscript_def query_backup_job_def)
      next
        case False
        with d Inr Some show ?thesis
          by (simp add: poll_backup_job_def subscript_def query_backup_job_def)
      qed
    qed
  qed
qed

lemma backup_loop_available:
  "clock w - st < t \<Longrightarrow> recovery_point (snd (describe_backup_job a jid (polls w))) = Some arn \<Longrightarrow>
     backup_wait_loop a jid st t w =
       (Inr arn, w\<lparr>clock := clock w + int (fst (describe_backup_job a jid (polls w))),
                    polls := polls w + 1\<rparr>)"
  by (subst backup_wait_loop.simps)
    (simp add: poll_backup_job_Some query_backup_job_def split: prod.splits)

lemma backup_loop_error:
  assumes "clock w - st < t" and "snd (describe_backup_job a jid (polls w)) = Inl e"
  shows "backup_wait_loop a jid st t w =
       backup_wait_loop a jid st t
         (time_sleep 60 (log_line (''Error checking backup status: '' @ str e)
            (snd (query_backup_job a jid w))))"
proof -
  obtain lat where d: "describe_backup_job a jid (polls w) = (lat, Inl e)"
    using assms(2) by (cases "describe_backup_job a jid (polls w)") simp
  show ?thesis
    using assms(1) d
    by (subst backup_wait_loop.simps) (simp add: poll_backup_job_def query_backup_job_def)
qed

lemma backup_loop_step:
  assumes "clock w - st < t"
    and "recovery_point (snd (describe_backup_job a jid (polls w))) = None"
  shows "\<exists>w'. backup_wait_loop a jid st t w = backup_wait_loop a jid st t w'
        \<and> polls w' = polls w + 1
        \<and> clock w' = clock w + int (fst (describe_backup_job a jid (polls w))) + 60
        \<and> naps w' = naps w + 1"
proof -
  let ?q = "snd (query_backup_job a jid w)"
  have q: "polls ?q = polls w + 1"
    "clock ?q = clock w + int (fst (describe_backup_job a jid (polls w)))" "naps ?q = naps w"
    by (simp_all add: query_backup_job_def split: prod.splits)
  from poll_backup_job_None [OF assms(2)] show ?thesis
  proof
    assume "\<exists>e. poll_backup_job a jid w = (Inl e, ?q)"
    then obtain e where e: "poll_backup_job a jid w = (Inl e, ?q)" ..
    let ?w' = "time_sleep 60 (log_line (''Error checking backup status: '' @ str e) ?q)"
    have "backup_wait_loop a jid st t w = backup_wait_loop a jid st t ?w'"
      using assms(1) e by (subst backup_wait_loop.simps) simp
    moreover have "polls ?w' = polls w + 1"
      "clock ?w' = clock w + int (fst (describe_backup_job a jid (polls w))) + 60"
      "naps ?w' = naps w + 1"
      using q by (simp_all add: time_sleep_def log_line_def)
    ultimately show ?thesis by blast
  next
    assume f: "poll_backup_job a jid w = (Inr Fallthrough, time_sleep 60 ?q)"
    let ?w' = "time_sleep 60 ?q"
    have "backup_wait_loop a jid st t w = backup_wait_loop a jid st t ?w'"
      using assms(1) f by (subst backup_wait_loop.simps) simp
    moreover have "polls ?w' = polls w + 1"
      "clock ?w' = clock w + int (fst (describe_backup_job a jid (polls w))) + 60"
      "naps ?w' = naps w + 1"
      using q by (simp_all add: time_sleep_def)
    ultimately show ?thesis by blast
  qed
qed

lemma backup_loop_induct [case_names stop available step]:
  assumes stop: "\<And>w. \<not> clock w - st < t \<Longrightarrow> P w"
    and available: "\<And>w arn. clock w - st < t \<Longrightarrow>
        recovery_point (snd (describe_backup_job a jid (polls w))) = Some arn \<Longrightarrow> P w"
    and step: "\<And>w w'. clock w - st < t \<Longrightarrow>
        recovery_point (snd (describe_backup_job a jid (polls w))) = None \<Longrightarrow>
        backup_wait_loop a jid st t w = backup_wait_loop a jid st t w' \<Longrightarrow>
        polls w' = polls w + 1 \<Longrightarrow>
        clock w' = clock w + int (fst (describe_backup_job a jid (polls w))) + 60 \<Longrightarrow>
        naps w' = naps w + 1 \<Longrightarrow> P w' \<Longrightarrow> P w"
  shows "P w"
proof (induction "nat (t - (clock w - st))" arbitrary: w rule: less_induct)
  case less
  show ?case
  proof (cases "clock w - st < t")
    case False
    then show ?thesis by (rule stop)
  next
    case True
    show ?thesis
    proof (cases "recovery_point (snd (describe_backup_job a jid (polls w)))")
      case (Some arn)
      with \<open>clock w - st < t\<close> show ?thesis by (rule available)
    next
      case None
      note False = None
      from backup_loop_step [OF True False] obtain w' where
        w': "backup_wait_loop a jid st t w = backup_wait_loop a jid st t w'"
          "polls w' = polls w + 1"
          "clock w' = clock w + int (fst (describe_backup_job a jid (polls w))) + 60"
          "naps w' = naps w + 1"
        by blast
      have "nat (t - (clock w' - st)) < nat (t - (clock w - st))"
        using True w'(3) by simp
      then have "P w'" by (rule less.hyps)
      with True False w' show ?thesis by (rule step)
    qed
  qed
qed

lemma backup_loop_polls_mono:
  "polls w \<le> polls (snd (backup_wait_loop a jid st t w))"
proof (induction w rule: backup_loop_induct [where a = a and jid = jid and st = st and t = t])
  case (stop w)
  then show ?case by (simp add: backup_loop_stop)
next
  case (available w arn)
  then show ?case by (simp add: backup_loop_available)
next
  case (step w w')
  then show ?case by simp
qed

lemma backup_loop_timeout_unless_available:
  "(\<forall>k. polls w \<le> k \<and> k < polls (snd (backup_wait_loop a jid st t w)) \<longrightarrow>
        recovery_point (snd (describe_backup_job a jid k)) = None) \<Longrightarrow>
   fst (backup_wait_loop a jid st t w) = Inl (Exception ''Timeout waiting for backup completion'')
   \<and> t \<le> clock (snd (backup_wait_loop a jid st t w)) - st"
proof (induction w rule: backup_loop_induct [where a = a and jid = jid and st = st and t = t])
  case (stop w)
  then show ?case by (simp add: backup_loop_stop)
next
  case (available w arn)
  then show ?case by (simp add: backup_loop_available)
next
  case (step w w')
  have "polls w' \<le> polls (snd (backup_wait_loop a jid st t w'))" by (rule backup_loop_polls_mono)
  with step show ?case by simp
qed

subsection \<open>The loop of the Lambda, one iteration at a time\<close>

lemma wait_loop_stop:
  "\<not> clock w - st < t \<Longrightarrow>
     wait_loop a sid st t w = (Inr False, w)"
  by (simp add: wait_loop.simps)

lemma wait_loop_available:
  "clock w - st < t \<Longrightarrow> snapshot_available (snd (describe_cluster_snapshots a sid (polls w))) \<Longrightarrow>
     wait_loop a sid st t w =
       (Inr True, w\<lparr>clock := clock w + int (fst (describe_cluster_snapshots a sid (polls w))),
                    polls := polls w + 1\<rparr>)"
  by (subst wait_loop.simps)
    (auto simp: poll_snapshot_def query_snapshot_def snapshot_available_def
      split: prod.splits sum.splits list.splits)

lemma wait_loop_error:
  "clock w - st < t \<Longrightarrow> snd (describe_cluster_snapshots a sid (polls w)) = Inl e \<Longrightarrow>
     wait_loop a sid st t w =
       wait_loop a sid st t
         (time_sleep 30 (log_line (''Error checking snapshot status: '' @ str e)
            (snd (query_snapshot a sid w))))"
  by (subst wait_loop.simps)
    (auto simp: poll_snapshot_def query_snapshot_def split: prod.splits sum.splits)

lemma wait_loop_step:
  "clock w - st < t \<Longrightarrow> \<not> snapshot_available (snd (describe_cluster_snapshots a sid (polls w))) \<Longrightarrow>
     \<exists>w'. wait_loop a sid st t w = wait_loop a sid st t w'
        \<and> polls w' = polls w + 1
        \<and> clock w' = clock w + int (fst (describe_cluster_snapshots a sid (polls w))) + 30
        \<and> naps w' = naps w + 1"
  by (subst wait_loop.simps)
    (auto simp: poll_snapshot_def query_snapshot_def snapshot_available_def
      time_sleep_def log_line_def
      split: prod.splits sum.splits list.splits)

lemma wait_loop_induct [case_names stop available step]:
  assumes stop: "\<And>w. \<not> clock w - st < t \<Longrightarrow> P w"
    and available: "\<And>w. clock w - st < t \<Longrightarrow>
        snapshot_available (snd (describe_cluster_snapshots a sid (polls w))) \<Longrightarrow> P w"
    and step: "\<And>w w'. clock w - st < t \<Longrightarrow>
        \<not> snapshot_available (snd (describe_cluster_snapshots a sid (polls w))) \<Longrightarrow>
        wait_loop a sid st t w = wait_loop a sid st t w' \<Longrightarrow>
        polls w' = polls w + 1 \<Longrightarrow>
        clock w' = clock w + int (fst (describe_cluster_snapshots a sid (polls w))) + 30 \<Longrightarrow>
        naps w' = naps w + 1 \<Longrightarrow> P w' \<Longrightarrow> P w"
  shows "P w"
proof (induction "nat (t - (clock w - st))" arbitrary: w rule: less_induct)
  case less
  show ?case
  proof (cases "clock w - st < t")
    case False
    then show ?thesis by (rule stop)
  next
    case True
    show ?thesis
    proof (cases "snapshot_available (snd (describe_cluster_snapshots a sid (polls w)))")
      case True
      with \<open>clock w - st < t\<close> show ?thesis by (rule available)
    next
      case False
      from wait_loop_step [OF True False] obtain w' where
        w': "wait_loop a sid st t w = wait_loop a sid st t w'"
          "polls w' = polls w + 1"
          "clock w' = clock w + int (fst (describe_cluster_snapshots a sid (polls w))) + 30"
          "naps w' = naps w + 1"
        by blast
      have "nat (t - (clock w' - st)) < nat (t - (clock w - st))"
        using True w'(3) by simp
      then have "P w'" by (rule less.hyps)
      with True False w' show ?thesis by (rule step)
    qed
  qed
qed

lemma wait_loop_polls_mono:
  "polls w \<le> polls (snd (wait_loop a sid st t w))"
proof (induction w rule: wait_loop_induct [where a = a and sid = sid and st = st and t = t])
  case (stop w)
  then show ?case by (simp add: wait_loop_stop)
next
  case (available w)
  then show ?case by (simp add: wait_loop_available)
next
  case (step w w')
  then show ?case by simp
qed

lemma wait_loop_timeout_unless_available:
  "(\<forall>k. polls w \<le> k \<and> k < polls (snd (wait_loop a sid st t w)) \<longrightarrow>
        \<not> snapshot_available (snd (describe_cluster_snapshots a sid k))) \<Longrightarrow>
   fst (wait_loop a sid st t w) = Inr False
   \<and> t \<le> clock (snd (wait_loop a sid st t w)) - st"
proof (induction w rule: wait_loop_induct [where a = a and sid = sid and st = st and t = t])
  case (stop w)
  then show ?case by (simp add: wait_loop_stop)
next
  case (available w)
  then show ?case by (simp add: wait_loop_available)
next
  case (step w w')
  have "polls w' \<le> polls (snd (wait_loop a sid st t w'))" by (rule wait_loop_polls_mono)
  with step show ?case by simp
qed

subsection \<open>Helper facts on the concrete providers and the status predicates\<close>

lemma not_completed_no_recovery_point:
  "\<not> job_completed r \<Longrightarrow> recovery_point r = None"
  by (cases r) (simp_all add: job_completed_def recovery_point_def)

lemma quiet_polls:
  "describe_cluster_snapshots quiet_aws sid k = (0, Inr [snap sid ''creating'' 0])"
  "describe_backup_job quiet_aws jid k = (0, Inr (job ''RUNNING''))"
  by (simp_all add: quiet_aws_def)

subsection \<open>C1: a failure status and the end of polling\<close>

text \<open>
  Claim C1 says that a failure-terminal status (\<open>failed\<close>, \<open>FAILED\<close>, \<open>ABORTED\<close>, \<open>EXPIRED\<close>)
  observed at any poll makes the loop return the Failed outcome at once, with no further
  status query. The three loops do raise on such a status, but inside the \<open>try:\<close> block whose
  \<open>except Exception\<close> handler prints, sleeps and continues. With a provider that answers
  \<open>failed\<close> (\<open>FAILED\<close>) on the first poll and a budget of two intervals, each loop logs the
  failure as an error of the status check, issues a second status query and ends in its
  time-out result: the two scripts raise the time-out exception, the Lambda returns \<open>False\<close>.
\<close>

theorem failed_status_is_polled_again:
  "demo_wait_for_snapshot_completion (snapshot_statuses [''failed'']) ''s1'' 60 w0 =
     (Inl (Exception ''Timeout waiting for snapshot completion''),
      w0\<lparr>clock := 1060, polls := 2, naps := 2,
         logged := [''Error checking snapshot status: Snapshot creation failed'']\<rparr>)
   \<and> wait_for_backup_completion (job_states [''FAILED'']) ''j1'' 120 w0 =
     (Inl (Exception ''Timeout waiting for backup completion''),
      w0\<lparr>clock := 1120, polls := 2, naps := 2,
         logged := [''Error checking backup status: Backup job failed with status: FAILED'']\<rparr>)
   \<and> wait_for_snapshot_completion (snapshot_statuses [''failed'']) ''s1'' 1 w0 =
     (Inr False,
      w0\<lparr>clock := 1060, polls := 2, naps := 2,
         logged := [''Snapshot creation failed'',
                    ''Error checking snapshot status: Snapshot creation failed'']\<rparr>)"
  by code_simp

subsection \<open>C2: what the caller gets when the budget runs out\<close>

text \<open>
  Claim C2 says that every loop returns the TimedOut outcome to its caller rather than
  raising when the budget runs out with no terminal status observed. Counterexample: with a
  provider that answers \<open>creating\<close> (\<open>RUNNING\<close>) for ever, the loops of the two scripts raise
  \<open>Exception("Timeout waiting for ... completion")\<close>.
\<close>

theorem script_loops_raise_on_timeout:
  "fst (demo_wait_for_snapshot_completion quiet_aws ''s1'' 60 w0)
     = Inl (Exception ''Timeout waiting for snapshot completion'')
   \<and> fst (wait_for_backup_completion quiet_aws ''j1'' 120 w0)
     = Inl (Exception ''Timeout waiting for backup completion'')"
  by code_simp

text \<open>
  Claim C2 as amended: when no status query issued by the invocation reports a terminal
  status, the Lambda's \<open>wait_for_snapshot_completion\<close> returns \<open>False\<close> without raising, while
  \<open>_wait_for_snapshot_completion\<close> and \<open>wait_for_backup_completion\<close> of the scripts raise their
  time-out exception; in each case the clock has then advanced by at least the maximum wait.
  The queries issued by the invocation are those numbered from \<open>polls w\<close> up to the final
  count.
\<close>

theorem timed_out_results:
  "((\<forall>k. polls w \<le> k \<and> k < polls (snd (wait_for_snapshot_completion a sid m w)) \<longrightarrow>
        \<not> snapshot_available (snd (describe_cluster_snapshots a sid k))
        \<and> \<not> snapshot_failed (snd (describe_cluster_snapshots a sid k))) \<longrightarrow>
      fst (wait_for_snapshot_completion a sid m w) = Inr False
      \<and> m * 60 \<le> clock (snd (wait_for_snapshot_completion a sid m w)) - clock w)
   \<and> ((\<forall>k. polls w \<le> k \<and> k < polls (snd (demo_wait_for_snapshot_completion a sid t w)) \<longrightarrow>
        \<not> snapshot_available (snd (describe_cluster_snapshots a sid k))
        \<and> \<not> snapshot_failed (snd (describe_cluster_snapshots a sid k))) \<longrightarrow>
      fst (demo_wait_for_snapshot_completion a sid t w)
        = Inl (Exception ''Timeout waiting for snapshot completion'')
      \<and> t \<le> clock (snd (demo_wait_for_snapshot_completion a sid t w)) - clock w)
   \<and> ((\<forall>k. polls w \<le> k \<and> k < polls (snd (wait_for_backup_completion a jid u w)) \<longrightarrow>
        \<not> job_completed (snd (describe_backup_job a jid k))
        \<and> \<not> job_failed (snd (describe_backup_job a jid k))) \<longrightarrow>
      fst (wait_for_backup_completion a jid u w)
        = Inl (Exception ''Timeout waiting for backup completion'')
      \<and> u \<le> clock (snd (wait_for_backup_completion a jid u w)) - clock w)"
proof (intro conjI impI)
  assume "\<forall>k. polls w \<le> k \<and> k < polls (snd (wait_for_snapshot_completion a sid m w)) \<longrightarrow>
        \<not> snapshot_available (snd (describe_cluster_snapshots a sid k))
        \<and> \<not> snapshot_failed (snd (describe_cluster_snapshots a sid k))"
  then have "\<forall>k. polls w \<le> k \<and> k < polls (snd (wait_loop a sid (clock w) (m * 60) w)) \<longrightarrow>
        \<not> snapshot_available (snd (describe_cluster_snapshots a sid k))"
    by (simp add: wait_for_snapshot_completion_def)
  from wait_loop_timeout_unless_available [OF this]
  show "fst (wait_for_snapshot_completion a sid m w) = Inr False"
    and "m * 60 \<le> clock (snd (wait_for_snapshot_completion a sid m w)) - clock w"
    by (simp_all add: wait_for_snapshot_completion_def)
next
  assume "\<forall>k. polls w \<le> k \<and> k < polls (snd (demo_wait_for_snapshot_completion a sid t w)) \<longrightarrow>
        \<not> snapshot_available (snd (describe_cluster_snapshots a sid k))
        \<and> \<not> snapshot_failed (snd (describe_cluster_snapshots a sid k))"
  then have "\<forall>k. polls w \<le> k \<and> k < polls (snd (demo_wait_loop a sid (clock w) t w)) \<longrightarrow>
        \<not> snapshot_available (snd (describe_cluster_snapshots a sid k))"
    by (simp add: demo_wait_for_snapshot_completion_def)
  from demo_loop_timeout_unless_available [OF this]
  show "fst (demo_wait_for_snapshot_completion a sid t w)
        = Inl (Exception ''Timeout waiting for snapshot completion'')"
    and "t \<le> clock (snd (demo_wait_for_snapshot_completion a sid t w)) - clock w"
    by (simp_all add: demo_wait_for_snapshot_completion_def)
next
  assume "\<forall>k. polls w \<le> k \<and> k < polls (snd (wait_for_backup_completion a jid u w)) \<longrightarrow>
        \<not> job_completed (snd (describe_backup_job a jid k))
        \<and> \<not> job_failed (snd (describe_backup_job a jid k))"
  then have "\<forall>k. polls w \<le> k \<and> k < polls (snd (backup_wait_loop a jid (clock w) u w)) \<longrightarrow>
        recovery_point (snd (describe_backup_job a jid k)) = None"
    by (simp add: wait_for_backup_completion_def not_completed_no_recovery_point)
  from backup_loop_timeout_unless_available [OF this]
  show "fst (wait_for_backup_completion a jid u w)
        = Inl (Exception ''Timeout waiting for backup completion'')"
    and "u \<le> clock (snd (wait_for_backup_completion a jid u w)) - clock w"
    by (simp_all add: wait_for_backup_completion_def)
qed

text \<open>
  Witness for the amended C2: the provider that always answers \<open>creating\<close> (\<open>RUNNING\<close>), with
  budgets of one minute, 60 seconds and 120 seconds.
\<close>

theorem timed_out_results_witness:
  "fst (wait_for_snapshot_completion quiet_aws ''s1'' 1 w0) = Inr False
   \<and> fst (demo_wait_for_snapshot_completion quiet_aws ''s1'' 60 w0)
        = Inl (Exception ''Timeout waiting for snapshot completion'')
   \<and> fst (wait_for_backup_completion quiet_aws ''j1'' 120 w0)
        = Inl (Exception ''Timeout waiting for backup completion'')"
proof -
  have h1: "\<forall>k. polls w0 \<le> k \<and> k < polls (snd (wait_for_snapshot_completion quiet_aws ''s1'' 1 w0)) \<longrightarrow>
        \<not> snapshot_available (snd (describe_cluster_snapshots quiet_aws ''s1'' k))
        \<and> \<not> snapshot_failed (snd (describe_cluster_snapshots quiet_aws ''s1'' k))"
    by (simp add: quiet_polls snapshot_available_def snapshot_failed_def snap_def)
  have h2: "\<forall>k. polls w0 \<le> k \<and> k < polls (snd (demo_wait_for_snapshot_completion quiet_aws ''s1'' 60 w0)) \<longrightarrow>
        \<not> snapshot_available (snd (describe_cluster_snapshots quiet_aws ''s1'' k))
        \<and> \<not> snapshot_failed (snd (describe_cluster_snapshots quiet_aws ''s1'' k))"
    by (simp add: quiet_polls snapshot_available_def snapshot_failed_def snap_def)
  have h3: "\<forall>k. polls w0 \<le> k \<and> k < polls (snd (wait_for_backup_completion quiet_aws ''j1'' 120 w0)) \<longrightarrow>
        \<not> job_completed (snd (describe_backup_job quiet_aws ''j1'' k))
        \<and> \<not> job_failed (snd (describe_backup_job quiet_aws ''j1'' k))"
    by (simp add: quiet_polls job_completed_def job_failed_def job_def)
  note T = timed_out_results [of w0 quiet_aws "''s1''" 1 60 "''j1''" 120]
  note c1 = T [THEN conjunct1, THEN mp, OF h1, THEN conjunct1]
  note c2 = T [THEN conjunct2, THEN conjunct1, THEN mp, OF h2, THEN conjunct1]
  note c3 = T [THEN conjunct2, THEN conjunct2, THEN mp, OF h3, THEN conjunct1]
  show ?thesis
    by (intro conjI) (rule c1 c2 c3)+
qed

subsection \<open>C3: one outcome, and polling stops at the first terminal status\<close>

text \<open>
  Claim C3 says that polling stops at the first observed terminal status. With a provider
  that answers \<open>failed\<close> and then \<open>available\<close> (\<open>FAILED\<close> and then \<open>COMPLETED\<close>), each of the
  three loops goes through another iteration after the terminal status \<open>failed\<close>, sleeps one
  interval, queries again and returns the success result. The cause is the one of C1: the
  \<open>raise\<close> for a failure status is caught by the loop's own \<open>except Exception\<close> handler.
\<close>

theorem failed_then_available_completes:
  "demo_wait_for_snapshot_completion (snapshot_statuses [''failed'', ''available'']) ''s1'' 60 w0 =
     (Inr True,
      w0\<lparr>clock := 1030, polls := 2, naps := 1,
         logged := [''Error checking snapshot status: Snapshot creation failed'']\<rparr>)
   \<and> wait_for_backup_completion (job_states [''FAILED'', ''COMPLETED'']) ''j1'' 120 w0 =
     (Inr ''arn:aws:backup:rp-1'',
      w0\<lparr>clock := 1060, polls := 2, naps := 1,
         logged := [''Error checking backup status: Backup job failed with status: FAILED'']\<rparr>)
   \<and> wait_for_snapshot_completion (snapshot_statuses [''failed'', ''available'']) ''s1'' 1 w0 =
     (Inr True,
      w0\<lparr>clock := 1030, polls := 2, naps := 1,
         logged := [''Snapshot creation failed'',
                    ''Error checking snapshot status: Snapshot creation failed'']\<rparr>)"
  by code_simp

subsection \<open>More facts on single iterations\<close>

lemma flaky_polls:
  "describe_cluster_snapshots flaky_aws sid k =
     (0, script [Inl (ClientError ''Throttling''), Inl (ClientError ''Throttling'')]
               (Inr [snap sid ''available'' 0]) k)"
  "describe_backup_job flaky_aws jid k =
     (0, script [Inl (ClientError ''Throttling''), Inl (ClientError ''Throttling'')]
               (Inr (job ''COMPLETED'')) k)"
  by (simp_all add: flaky_aws_def quiet_aws_def)

lemma settled_polls:
  "describe_cluster_snapshots settled_aws sid k = (0, Inr [snap sid ''available'' 0])"
  "describe_backup_job settled_aws jid k = (0, Inr (job ''COMPLETED''))"
  by (simp_all add: settled_aws_def quiet_aws_def)

lemma query_snapshot_fields:
  "polls (snd (query_snapshot a sid w)) = polls w + 1"
  "clock (snd (query_snapshot a sid w)) = clock w + int (fst (describe_cluster_snapshots a sid (polls w)))"
  "naps (snd (query_snapshot a sid w)) = naps w"
  "logged (snd (query_snapshot a sid w)) = logged w"
  by (simp_all add: query_snapshot_def split: prod.splits)

lemma query_backup_job_fields:
  "polls (snd (query_backup_job a jid w)) = polls w + 1"
  "clock (snd (query_backup_job a jid w)) = clock w + int (fst (describe_backup_job a jid (polls w)))"
  "naps (snd (query_backup_job a jid w)) = naps w"
  "logged (snd (query_backup_job a jid w)) = logged w"
  by (simp_all add: query_backup_job_def split: prod.splits)

lemma after_error_fields:
  "polls (time_sleep n (log_line l w)) = polls w"
  "clock (time_sleep n (log_line l w)) = clock w + int n"
  "naps (time_sleep n (log_line l w)) = naps w + 1"
  "logged (time_sleep n (log_line l w)) = logged w @ [l]"
  by (simp_all add: time_sleep_def log_line_def)

lemma demo_two_errors_then_available:
  assumes e0: "snd (describe_cluster_snapshots a sid (polls w)) = Inl e0"
    and e1: "snd (describe_cluster_snapshots a sid (polls w + 1)) = Inl e1"
    and ok: "snapshot_available (snd (describe_cluster_snapshots a sid (polls w + 2)))"
    and budget: "60 + int (fst (describe_cluster_snapshots a sid (polls w)))
                    + int (fst (describe_cluster_snapshots a sid (polls w + 1))) < t"
  shows "fst (demo_wait_for_snapshot_completion a sid t w) = Inr True
     \<and> polls (snd (demo_wait_for_snapshot_completion a sid t w)) = polls w + 3
     \<and> naps (snd (demo_wait_for_snapshot_completion a sid t w)) = naps w + 2
     \<and> logged (snd (demo_wait_for_snapshot_completion a sid t w))
         = logged w @ [''Error checking snapshot status: '' @ str e0,
                       ''Error checking snapshot status: '' @ str e1]"
proof -
  define l0 where "l0 = ''Error checking snapshot status: '' @ str e0"
  define l1 where "l1 = ''Error checking snapshot status: '' @ str e1"
  define w1 where "w1 = time_sleep 30 (log_line l0 (snd (query_snapshot a sid w)))"
  define w2 where "w2 = time_sleep 30 (log_line l1 (snd (query_snapshot a sid w1)))"
  have f1: "polls w1 = polls w + 1"
    "clock w1 = clock w + int (fst (describe_cluster_snapshots a sid (polls w))) + 30"
    "naps w1 = naps w + 1"
    "logged w1 = logged w @ [l0]"
    by (simp_all add: w1_def after_error_fields query_snapshot_fields)
  have f2: "polls w2 = polls w + 2"
    "clock w2 = clock w + int (fst (describe_cluster_snapshots a sid (polls w)))
                 + int (fst (describe_cluster_snapshots a sid (polls w + 1))) + 60"
    "naps w2 = naps w + 2"
    "logged w2 = logged w @ [l0, l1]"
    by (simp_all add: w2_def after_error_fields query_snapshot_fields f1)
  have s0: "clock w - clock w < t" using budget by simp
  have s1: "clock w1 - clock w < t" using budget by (simp add: f1)
  have s2: "clock w2 - clock w < t" using budget by (simp add: f2)
  have "demo_wait_loop a sid (clock w) t w = demo_wait_loop a sid (clock w) t w1"
    unfolding w1_def l0_def using s0 e0 by (rule demo_loop_error)
  also have "\<dots> = demo_wait_loop a sid (clock w) t w2"
    unfolding w2_def l1_def using s1 e1 by (intro demo_loop_error) (simp_all add: f1)
  also have "\<dots> = (Inr True,
      w2\<lparr>clock := clock w2 + int (fst (describe_cluster_snapshots a sid (polls w2))),
           polls := polls w2 + 1\<rparr>)"
    using s2 ok by (intro demo_loop_available) (simp_all add: f2)
  finally have "demo_wait_for_snapshot_completion a sid t w = (Inr True,
      w2\<lparr>clock := clock w2 + int (fst (describe_cluster_snapshots a sid (polls w2))),
           polls := polls w2 + 1\<rparr>)"
    by (simp only: demo_wait_for_snapshot_completion_def)
  then show ?thesis
    unfolding l0_def [symmetric] l1_def [symmetric] by (simp add: f2)
qed

lemma lambda_two_errors_then_available:
  assumes e0: "snd (describe_cluster_snapshots a sid (polls w)) = Inl e0"
    and e1: "snd (describe_cluster_snapshots a sid (polls w + 1)) = Inl e1"
    and ok: "snapshot_available (snd (describe_cluster_snapshots a sid (polls w + 2)))"
    and budget: "60 + int (fst (describe_cluster_snapshots a sid (polls w)))
                    + int (fst (describe_cluster_snapshots a sid (polls w + 1))) < m * 60"
  shows "fst (wait_for_snapshot_completion a sid m w) = Inr True
     \<and> polls (snd (wait_for_snapshot_completion a sid m w)) = polls w + 3
     \<and> naps (snd (wait_for_snapshot_completion a sid m w)) = naps w + 2
     \<and> logged (snd (wait_for_snapshot_completion a sid m w))
         = logged w @ [''Error checking snapshot status: '' @ str e0,
                       ''Error checking snapshot status: '' @ str e1]"
proof -
  define l0 where "l0 = ''Error checking snapshot status: '' @ str e0"
  define l1 where "l1 = ''Error checking snapshot status: '' @ str e1"
  define w1 where "w1 = time_sleep 30 (log_line l0 (snd (query_snapshot a sid w)))"
  define w2 where "w2 = time_sleep 30 (log_line l1 (snd (query_snapshot a sid w1)))"
  have f1: "polls w1 = polls w + 1"
    "clock w1 = clock w + int (fst (describe_cluster_snapshots a sid (polls w))) + 30"
    "naps w1 = naps w + 1"
    "logged w1 = logged w @ [l0]"
    by (simp_all add: w1_def after_error_fields query_snapshot_fields)
  have f2: "polls w2 = polls w + 2"
    "clock w2 = clock w + int (fst (describe_cluster_snapshots a sid (polls w)))
                 + int (fst (describe_cluster_snapshots a sid (polls w + 1))) + 60"
    "naps w2 = naps w + 2"
    "logged w2 = logged w @ [l0, l1]"
    by (simp_all add: w2_def after_error_fields query_snapshot_fields f1)
  have s0: "clock w - clock w < m * 60" using budget by simp
  have s1: "clock w1 - clock w < m * 60" using budget by (simp add: f1)
  have s2: "clock w2 - clock w < m * 60" using budget by (simp add: f2)
  have "wait_loop a sid (clock w) (m * 60) w = wait_loop a sid (clock w) (m * 60) w1"
    unfolding w1_def l0_def using s0 e0 by (rule wait_loop_error)
  also have "\<dots> = wait_loop a sid (clock w) (m * 60) w2"
    unfolding w2_def l1_def using s1 e1 by (intro wait_loop_error) (simp_all add: f1)
  also have "\<dots> = (Inr True,
      w2\<lparr>clock := clock w2 + int (fst (describe_cluster_snapshots a sid (polls w2))),
           polls := polls w2 + 1\<rparr>)"
    using s2 ok by (intro wait_loop_available) (simp_all add: f2)
  finally have "wait_for_snapshot_completion a sid m w = (Inr True,
      w2\<lparr>clock := clock w2 + int (fst (describe_cluster_snapshots a sid (polls w2))),
           polls := polls w2 + 1\<rparr>)"
    by (simp only: wait_for_snapshot_completion_def)
  then show ?thesis
    unfolding l0_def [symmetric] l1_def [symmetric] by (simp add: f2)
qed

lemma backup_two_errors_then_completed:
  assumes e0: "snd (describe_backup_job a jid (polls w)) = Inl e0"
    and e1: "snd (describe_backup_job a jid (polls w + 1)) = Inl e1"
    and ok: "recovery_point (snd (describe_backup_job a jid (polls w + 2))) = Some arn"
    and budget: "120 + int (fst (describe_backup_job a jid (polls w)))
                    + int (fst (describe_backup_job a jid (polls w + 1))) < t"
  shows "fst (wait_for_backup_completion a jid t w) = Inr arn
     \<and> polls (snd (wait_for_backup_completion a jid t w)) = polls w + 3
     \<and> naps (snd (wait_for_backup_completion a jid t w)) = naps w + 2
     \<and> logged (snd (wait_for_backup_completion a jid t w))
         = logged w @ [''Error checking backup status: '' @ str e0,
                       ''Error checking backup status: '' @ str e1]"
proof -
  define l0 where "l0 = ''Error checking backup status: '' @ str e0"
  define l1 where "l1 = ''Error checking backup status: '' @ str e1"
  define w1 where "w1 = time_sleep 60 (log_line l0 (snd (query_backup_job a jid w)))"
  define w2 where "w2 = time_sleep 60 (log_line l1 (snd (query_backup_job a jid w1)))"
  have f1: "polls w1 = polls w + 1"
    "clock w1 = clock w + int (fst (describe_backup_job a jid (polls w))) + 60"
    "naps w1 = naps w + 1"
    "logged w1 = logged w @ [l0]"
    by (simp_all add: w1_def after_error_fields query_backup_job_fields)
  have f2: "polls w2 = polls w + 2"
    "clock w2 = clock w + int (fst (describe_backup_job a jid (polls w)))
                 + int (fst (describe_backup_job a jid (polls w + 1))) + 120"
    "naps w2 = naps w + 2"
    "logged w2 = logged w @ [l0, l1]"
    by (simp_all add: w2_def after_error_fields query_backup_job_fields f1)
  have s0: "clock w - clock w < t" using budget by simp
  have s1: "clock w1 - clock w < t" using budget by (simp add: f1)
  have s2: "clock w2 - clock w < t" using budget by (simp add: f2)
  have "backup_wait_loop a jid (clock w) t w = backup_wait_loop a jid (clock w) t w1"
    unfolding w1_def l0_def using s0 e0 by (rule backup_loop_error)
  also have "\<dots> = backup_wait_loop a jid (clock w) t w2"
    unfolding w2_def l1_def using s1 e1 by (intro backup_loop_error) (simp_all add: f1)
  also have "\<dots> = (Inr arn,
      w2\<lparr>clock := clock w2 + int (fst (describe_backup_job a jid (polls w2))),
           polls := polls w2 + 1\<rparr>)"
    using s2 ok by (intro backup_loop_available) (simp_all add: f2)
  finally have "wait_for_backup_completion a jid t w = (Inr arn,
      w2\<lparr>clock := clock w2 + int (fst (describe_backup_job a jid (polls w2))),
           polls := polls w2 + 1\<rparr>)"
    by (simp only: wait_for_backup_completion_def)
  then show ?thesis
    unfolding l0_def [symmetric] l1_def [symmetric] by (simp add: f2)
qed

lemma demo_short_budget:
  assumes "t < 30"
  shows "polls (snd (demo_wait_for_snapshot_completion a sid t w)) \<le> polls w + 1"
    and "\<not> snapshot_available (snd (describe_cluster_snapshots a sid (polls w))) \<Longrightarrow>
         fst (demo_wait_for_snapshot_completion a sid t w)
           = Inl (Exception ''Timeout waiting for snapshot completion'')"
proof -
  have "polls (snd (demo_wait_loop a sid (clock w) t w)) \<le> polls w + 1
    \<and> (\<not> snapshot_available (snd (describe_cluster_snapshots a sid (polls w))) \<longrightarrow>
         fst (demo_wait_loop a sid (clock w) t w)
           = Inl (Exception ''Timeout waiting for snapshot completion''))"
  proof (cases "clock w - clock w < t")
    case False
    then show ?thesis by (simp add: demo_loop_stop)
  next
    case True
    show ?thesis
    proof (cases "snapshot_available (snd (describe_cluster_snapshots a sid (polls w)))")
      case True
      with \<open>clock w - clock w < t\<close> show ?thesis by (simp add: demo_loop_available)
    next
      case False
      from demo_loop_step [OF True False] obtain w' where
        w': "demo_wait_loop a sid (clock w) t w = demo_wait_loop a sid (clock w) t w'"
          "polls w' = polls w + 1"
          "clock w' = clock w + int (fst (describe_cluster_snapshots a sid (polls w))) + 30"
        by blast
      have "\<not> clock w' - clock w < t" using assms w'(3) by simp
      then have "demo_wait_loop a sid (clock w) t w'
          = (Inl (Exception ''Timeout waiting for snapshot completion''), w')"
        by (rule demo_loop_stop)
      with w' show ?thesis by simp
    qed
  qed
  then show "polls (snd (demo_wait_for_snapshot_completion a sid t w)) \<le> polls w + 1"
    and "\<not> snapshot_available (snd (describe_cluster_snapshots a sid (polls w))) \<Longrightarrow>
         fst (demo_wait_for_snapshot_completion a sid t w)
           = Inl (Exception ''Timeout waiting for snapshot completion'')"
    by (simp_all add: demo_wait_for_snapshot_completion_def)
qed

lemma backup_short_budget:
  assumes "t < 60"
  shows "polls (snd (wait_for_backup_completion a jid t w)) \<le> polls w + 1"
    and "recovery_point (snd (describe_backup_job a jid (polls w))) = None \<Longrightarrow>
         fst (wait_for_backup_completion a jid t w)
           = Inl (Exception ''Timeout waiting for backup completion'')"
proof -
  have "polls (snd (backup_wait_loop a jid (clock w) t w)) \<le> polls w + 1
    \<and> (recovery_point (snd (describe_backup_job a jid (polls w))) = None \<longrightarrow>
         fst (backup_wait_loop a jid (clock w) t w)
           = Inl (Exception ''Timeout waiting for backup completion''))"
  proof (cases "clock w - clock w < t")
    case False
    then show ?thesis by (simp add: backup_loop_stop)
  next
    case True
    show ?thesis
    proof (cases "recovery_point (snd (describe_backup_job a jid (polls w)))")
      case (Some arn)
      with \<open>clock w - clock w < t\<close> show ?thesis by (simp add: backup_loop_available)
    next
      case None
      note False = None
      from backup_loop_step [OF True False] obtain w' where
        w': "backup_wait_loop a jid (clock w) t w = backup_wait_loop a jid (clock w) t w'"
          "polls w' = polls w + 1"
          "clock w' = clock w + int (fst (describe_backup_job a jid (polls w))) + 60"
        by blast
      have "\<not> clock w' - clock w < t" using assms w'(3) by simp
      then have "backup_wait_loop a jid (clock w) t w'
          = (Inl (Exception ''Timeout waiting for backup completion''), w')"
        by (rule backup_loop_stop)
      with w' show ?thesis by simp
    qed
  qed
  then show "polls (snd (wait_for_backup_completion a jid t w)) \<le> polls w + 1"
    and "recovery_point (snd (describe_backup_job a jid (polls w))) = None \<Longrightarrow>
         fst (wait_for_backup_completion a jid t w)
           = Inl (Exception ''Timeout waiting for backup completion'')"
    by (simp_all add: wait_for_backup_completion_def)
qed

lemma demo_two_polls:
  assumes lat: "fst (describe_cluster_snapshots a sid (polls w)) < 30"
    and n0: "\<not> snapshot_available (snd (describe_cluster_snapshots a sid (polls w)))"
    and n1: "\<not> snapshot_available (snd (describe_cluster_snapshots a sid (polls w + 1)))"
  shows "fst (demo_wait_for_snapshot_completion a sid 60 w)
           = Inl (Exception ''Timeout waiting for snapshot completion'')
     \<and> polls (snd (demo_wait_for_snapshot_completion a sid 60 w)) = polls w + 2"
proof -
  have s0: "clock w - clock w < 60" by simp
  from demo_loop_step [OF s0 n0] obtain w1 where
    w1: "demo_wait_loop a sid (clock w) 60 w = demo_wait_loop a sid (clock w) 60 w1"
      "polls w1 = polls w + 1"
      "clock w1 = clock w + int (fst (describe_cluster_snapshots a sid (polls w))) + 30"
    by blast
  have s1: "clock w1 - clock w < 60" using lat w1(3) by simp
  have n1': "\<not> snapshot_available (snd (describe_cluster_snapshots a sid (polls w1)))"
    using n1 w1(2) by simp
  from demo_loop_step [OF s1 n1'] obtain w2 where
    w2: "demo_wait_loop a sid (clock w) 60 w1 = demo_wait_loop a sid (clock w) 60 w2"
      "polls w2 = polls w1 + 1"
      "clock w2 = clock w1 + int (fst (describe_cluster_snapshots a sid (polls w1))) + 30"
    by blast
  have "\<not> clock w2 - clock w < 60" using w1(3) w2(3) by simp
  then have "demo_wait_loop a sid (clock w) 60 w2
      = (Inl (Exception ''Timeout waiting for snapshot completion''), w2)"
    by (rule demo_loop_stop)
  with w1 w2 show ?thesis by (simp add: demo_wait_for_snapshot_completion_def)
qed

lemma demo_constant_answer:
  assumes "\<forall>k. snd (describe_cluster_snapshots a sid k) = r"
  shows "fst (demo_wait_for_snapshot_completion a sid t w) =
     (if snapshot_available r \<and> 0 < t then Inr True
      else Inl (Exception ''Timeout waiting for snapshot completion''))"
proof (cases "snapshot_available r")
  case True
  with assms show ?thesis
    by (simp add: demo_wait_for_snapshot_completion_def demo_loop_available demo_loop_stop)
next
  case False
  with assms have "\<forall>k. polls w \<le> k \<and> k < polls (snd (demo_wait_loop a sid (clock w) t w)) \<longrightarrow>
        \<not> snapshot_available (snd (describe_cluster_snapshots a sid k))"
    by simp
  from demo_loop_timeout_unless_available [OF this] False show ?thesis
    by (simp add: demo_wait_for_snapshot_completion_def)
qed

lemma backup_constant_answer:
  assumes "\<forall>k. snd (describe_backup_job a jid k) = r"
  shows "fst (wait_for_backup_completion a jid t w) =
     (case recovery_point r of
        Some arn \<Rightarrow> if 0 < t then Inr arn
                    else Inl (Exception ''Timeout waiting for backup completion'')
      | None \<Rightarrow> Inl (Exception ''Timeout waiting for backup completion''))"
proof (cases "recovery_point r")
  case (Some arn)
  with assms show ?thesis
    by (simp add: wait_for_backup_completion_def backup_loop_available backup_loop_stop)
next
  case None
  with assms have "\<forall>k. polls w \<le> k \<and> k < polls (snd (backup_wait_loop a jid (clock w) t w)) \<longrightarrow>
        recovery_point (snd (describe_backup_job a jid k)) = None"
    by simp
  from backup_loop_timeout_unless_available [OF this] None show ?thesis
    by (simp add: wait_for_backup_completion_def)
qed

lemma lambda_constant_answer:
  assumes "\<forall>k. snd (describe_cluster_snapshots a sid k) = r"
  shows "fst (wait_for_snapshot_completion a sid m w) =
     (if snapshot_available r \<and> 0 < m then Inr True
      else Inr False)"
proof (cases "snapshot_available r")
  case True
  with assms show ?thesis
    by (simp add: wait_for_snapshot_completion_def wait_loop_available wait_loop_stop)
next
  case False
  with assms have "\<forall>k. polls w \<le> k \<and> k < polls (snd (wait_loop a sid (clock w) (m * 60) w)) \<longrightarrow>
        \<not> snapshot_available (snd (describe_cluster_snapshots a sid k))"
    by simp
  from wait_loop_timeout_unless_available [OF this] False show ?thesis
    by (simp add: wait_for_snapshot_completion_def)
qed

subsection \<open>C4: transient errors of the status query\<close>

text \<open>
  Claim C4: when the status query raises, the loop logs the error and continues with the
  next interval instead of aborting; in particular, when the query raises on two successive
  polls and reports success on the third, within the time budget, the loop returns its
  success result. The first three conjuncts are the single iteration of each loop: with
  budget left and an answer \<open>Inl e\<close>, the loop is the loop after the query, the logged line
  and one sleep. The last three are the scenario, for each loop: the third query is reached
  while less than the budget has elapsed (two sleeps and the two failed calls), the result is
  the success value after exactly three queries, two sleeps and two logged lines.
\<close>

theorem transient_errors_are_retried:
  "(clock w - st < t \<and> snd (describe_cluster_snapshots a sid (polls w)) = Inl e \<longrightarrow>
      demo_wait_loop a sid st t w =
        demo_wait_loop a sid st t
          (time_sleep 30 (log_line (''Error checking snapshot status: '' @ str e)
             (snd (query_snapshot a sid w)))))
   \<and> (clock w - st < t \<and> snd (describe_backup_job a jid (polls w)) = Inl e \<longrightarrow>
      backup_wait_loop a jid st t w =
        backup_wait_loop a jid st t
          (time_sleep 60 (log_line (''Error checking backup status: '' @ str e)
             (snd (query_backup_job a jid w)))))
   \<and> (clock w - st < t \<and> snd (describe_cluster_snapshots a sid (polls w)) = Inl e \<longrightarrow>
      wait_loop a sid st t w =
        wait_loop a sid st t
          (time_sleep 30 (log_line (''Error checking snapshot status: '' @ str e)
             (snd (query_snapshot a sid w)))))
   \<and> (snd (describe_cluster_snapshots a sid (polls w)) = Inl e0
       \<and> snd (describe_cluster_snapshots a sid (polls w + 1)) = Inl e1
       \<and> snapshot_available (snd (describe_cluster_snapshots a sid (polls w + 2)))
       \<and> 60 + int (fst (describe_cluster_snapshots a sid (polls w)))
             + int (fst (describe_cluster_snapshots a sid (polls w + 1))) < t \<longrightarrow>
      fst (demo_wait_for_snapshot_completion a sid t w) = Inr True
      \<and> polls (snd (demo_wait_for_snapshot_completion a sid t w)) = polls w + 3
      \<and> naps (snd (demo_wait_for_snapshot_completion a sid t w)) = naps w + 2
      \<and> logged (snd (demo_wait_for_snapshot_completion a sid t w))
          = logged w @ [''Error checking snapshot status: '' @ str e0,
                        ''Error checking snapshot status: '' @ str e1])
   \<and> (snd (describe_backup_job a jid (polls w)) = Inl e0
       \<and> snd (describe_backup_job a jid (polls w + 1)) = Inl e1
       \<and> recovery_point (snd (describe_backup_job a jid (polls w + 2))) = Some arn
       \<and> 120 + int (fst (describe_backup_job a jid (polls w)))
              + int (fst (describe_backup_job a jid (polls w + 1))) < t \<longrightarrow>
      fst (wait_for_backup_completion a jid t w) = Inr arn
      \<and> polls (snd (wait_for_backup_completion a jid t w)) = polls w + 3
      \<and> naps (snd (wait_for_backup_completion a jid t w)) = naps w + 2
      \<and> logged (snd (wait_for_backup_completion a jid t w))
          = logged w @ [''Error checking backup status: '' @ str e0,
                        ''Error checking backup status: '' @ str e1])
   \<and> (snd (describe_cluster_snapshots a sid (polls w)) = Inl e0
       \<and> snd (describe_cluster_snapshots a sid (polls w + 1)) = Inl e1
       \<and> snapshot_available (snd (describe_cluster_snapshots a sid (polls w + 2)))
       \<and> 60 + int (fst (describe_cluster_snapshots a sid (polls w)))
             + int (fst (describe_cluster_snapshots a sid (polls w + 1))) < m * 60 \<longrightarrow>
      fst (wait_for_snapshot_completion a sid m w) = Inr True
      \<and> polls (snd (wait_for_snapshot_completion a sid m w)) = polls w + 3
      \<and> naps (snd (wait_for_snapshot_completion a sid m w)) = naps w + 2
      \<and> logged (snd (wait_for_snapshot_completion a sid m w))
          = logged w @ [''Error checking snapshot status: '' @ str e0,
                        ''Error checking snapshot status: '' @ str e1])"
proof (intro conjI impI; (elim conjE)?)
  show "demo_wait_loop a sid st t w =
        demo_wait_loop a sid st t
          (time_sleep 30 (log_line (''Error checking snapshot status: '' @ str e)
             (snd (query_snapshot a sid w))))"
    if "clock w - st < t" "snd (describe_cluster_snapshots a sid (polls w)) = Inl e"
    using that by (rule demo_loop_error)
  show "backup_wait_loop a jid st t w =
        backup_wait_loop a jid st t
          (time_sleep 60 (log_line (''Error checking backup status: '' @ str e)
             (snd (query_backup_job a jid w))))"
    if "clock w - st < t" "snd (describe_backup_job a jid (polls w)) = Inl e"
    using that by (rule backup_loop_error)
  show "wait_loop a sid st t w =
        wait_loop a sid st t
          (time_sleep 30 (log_line (''Error checking snapshot status: '' @ str e)
             (snd (query_snapshot a sid w))))"
    if "clock w - st < t" "snd (describe_cluster_snapshots a sid (polls w)) = Inl e"
    using that by (rule wait_loop_error)
qed (use demo_two_errors_then_available [of a sid w e0 e1 t]
         backup_two_errors_then_completed [of a jid w e0 e1 arn t]
         lambda_two_errors_then_available [of a sid w e0 e1 m] in blast)+

text \<open>
  Witness for C4: the provider that is throttled twice, with the default budgets of the
  demo script and of the Lambda.
\<close>

theorem transient_errors_are_retried_witness:
  "fst (demo_wait_for_snapshot_completion flaky_aws ''s1'' 1800 w0) = Inr True
   \<and> polls (snd (demo_wait_for_snapshot_completion flaky_aws ''s1'' 1800 w0)) = 3
   \<and> fst (wait_for_backup_completion flaky_aws ''j1'' 1800 w0) = Inr ''arn:aws:backup:rp-1''
   \<and> polls (snd (wait_for_backup_completion flaky_aws ''j1'' 1800 w0)) = 3
   \<and> fst (wait_for_snapshot_completion flaky_aws ''s1'' 15 w0) = Inr True
   \<and> polls (snd (wait_for_snapshot_completion flaky_aws ''s1'' 15 w0)) = 3"
  using transient_errors_are_retried [where w = w0 and a = flaky_aws and sid = "''s1''"
      and jid = "''j1''" and ?e0.0 = "ClientError ''Throttling''"
      and ?e1.0 = "ClientError ''Throttling''" and e = "ClientError ''Throttling''"
      and arn = "''arn:aws:backup:rp-1''" and st = 1000 and t = 1800 and m = 15]
  by (simp add: w0_def flaky_polls script_def snapshot_available_def snap_def
      recovery_point_def job_def)

subsection \<open>C5: success on the first status query\<close>

text \<open>
  Claim C5: with a positive time budget, when the very first status query reports a
  success-terminal status (\<open>available\<close>; \<open>COMPLETED\<close> with its recovery point), the loop
  returns the Completed result with its payload without sleeping. The world returned is the
  initial one with one more status query and the clock moved by that call alone: \<open>naps\<close>,
  the number of calls of \<open>time.sleep\<close>, is unchanged.
\<close>

theorem first_poll_success_returns_without_sleeping:
  "(0 < t \<and> snapshot_available (snd (describe_cluster_snapshots a sid (polls w))) \<longrightarrow>
      demo_wait_for_snapshot_completion a sid t w =
        (Inr True, w\<lparr>clock := clock w + int (fst (describe_cluster_snapshots a sid (polls w))),
                     polls := polls w + 1\<rparr>))
   \<and> (0 < t \<and> recovery_point (snd (describe_backup_job a jid (polls w))) = Some arn \<longrightarrow>
      wait_for_backup_completion a jid t w =
        (Inr arn, w\<lparr>clock := clock w + int (fst (describe_backup_job a jid (polls w))),
                    polls := polls w + 1\<rparr>))
   \<and> (0 < m \<and> snapshot_available (snd (describe_cluster_snapshots a sid (polls w))) \<longrightarrow>
      wait_for_snapshot_completion a sid m w =
        (Inr True, w\<lparr>clock := clock w + int (fst (describe_cluster_snapshots a sid (polls w))),
                     polls := polls w + 1\<rparr>))"
  by (simp add: demo_wait_for_snapshot_completion_def wait_for_backup_completion_def
      wait_for_snapshot_completion_def demo_loop_available backup_loop_available
      wait_loop_available)

text \<open>Witness for C5: the provider whose operations are already finished.\<close>

theorem first_poll_success_returns_without_sleeping_witness:
  "demo_wait_for_snapshot_completion settled_aws ''s1'' 1800 w0 = (Inr True, w0\<lparr>polls := 1\<rparr>)
   \<and> wait_for_backup_completion settled_aws ''j1'' 1800 w0
       = (Inr ''arn:aws:backup:rp-1'', w0\<lparr>polls := 1\<rparr>)
   \<and> wait_for_snapshot_completion settled_aws ''s1'' 15 w0 = (Inr True, w0\<lparr>polls := 1\<rparr>)
   \<and> naps (w0\<lparr>polls := 1\<rparr>) = 0"
  using first_poll_success_returns_without_sleeping [where w = w0 and a = settled_aws
      and sid = "''s1''" and jid = "''j1''" and arn = "''arn:aws:backup:rp-1''"
      and t = 1800 and m = 15]
  by (simp add: w0_def settled_polls snapshot_available_def snap_def recovery_point_def job_def)

subsection \<open>C6: a maximum wait shorter than the interval\<close>

text \<open>
  Claim C6 says that with a maximum wait strictly less than the poll interval the loop
  returns TimedOut. Counterexample: with a budget of 10 seconds and a snapshot that is
  already \<open>available\<close> (a job already \<open>COMPLETED\<close>), the single status query reports success
  and the loops return the success result.
\<close>

theorem short_budget_can_complete:
  "fst (demo_wait_for_snapshot_completion settled_aws ''s1'' 10 w0) = Inr True
   \<and> fst (wait_for_backup_completion settled_aws ''j1'' 10 w0) = Inr ''arn:aws:backup:rp-1''"
  by code_simp

text \<open>
  Claim C6 as amended: with a maximum wait strictly less than the poll interval (30 seconds
  for the snapshot loop, 60 for the backup loop) the loop issues zero or one status query,
  and it ends in its time-out result whenever that query does not report a terminal status.
  The budget of the Lambda's loop is counted in minutes, so it is below the interval only
  when it is not positive: the loop then returns \<open>False\<close> at once, with the world untouched.
\<close>

theorem short_budget_at_most_one_poll:
  "(t < 30 \<longrightarrow>
      polls (snd (demo_wait_for_snapshot_completion a sid t w)) \<le> polls w + 1
      \<and> (\<not> snapshot_available (snd (describe_cluster_snapshots a sid (polls w)))
          \<and> \<not> snapshot_failed (snd (describe_cluster_snapshots a sid (polls w))) \<longrightarrow>
         fst (demo_wait_for_snapshot_completion a sid t w)
           = Inl (Exception ''Timeout waiting for snapshot completion'')))
   \<and> (u < 60 \<longrightarrow>
      polls (snd (wait_for_backup_completion a jid u w)) \<le> polls w + 1
      \<and> (\<not> job_completed (snd (describe_backup_job a jid (polls w)))
          \<and> \<not> job_failed (snd (describe_backup_job a jid (polls w))) \<longrightarrow>
         fst (wait_for_backup_completion a jid u w)
           = Inl (Exception ''Timeout waiting for backup completion'')))
   \<and> (m * 60 < 30 \<longrightarrow> wait_for_snapshot_completion a sid m w = (Inr False, w))"
  using demo_short_budget [of t a sid w] backup_short_budget [of u a jid w]
    not_completed_no_recovery_point [of "snd (describe_backup_job a jid (polls w))"]
  by (auto simp: wait_for_snapshot_completion_def wait_loop_stop)

text \<open>
  Witness for the amended C6: budgets of 10 seconds (0 minutes for the Lambda) and a
  provider that answers \<open>creating\<close> (\<open>RUNNING\<close>).
\<close>

theorem short_budget_at_most_one_poll_witness:
  "polls (snd (demo_wait_for_snapshot_completion quiet_aws ''s1'' 10 w0)) \<le> polls w0 + 1
   \<and> fst (demo_wait_for_snapshot_completion quiet_aws ''s1'' 10 w0)
       = Inl (Exception ''Timeout waiting for snapshot completion'')
   \<and> polls (snd (wait_for_backup_completion quiet_aws ''j1'' 10 w0)) \<le> polls w0 + 1
   \<and> fst (wait_for_backup_completion quiet_aws ''j1'' 10 w0)
       = Inl (Exception ''Timeout waiting for backup completion'')
   \<and> wait_for_snapshot_completion quiet_aws ''s1'' 0 w0 = (Inr False, w0)"
  using short_budget_at_most_one_poll [where w = w0 and a = quiet_aws and sid = "''s1''"
      and jid = "''j1''" and t = 10 and u = 10 and m = 0]
  by (simp add: quiet_polls snapshot_available_def snapshot_failed_def snap_def
      job_completed_def job_failed_def job_def)

subsection \<open>C7: interval 30, maximum wait 60, always pending\<close>

text \<open>
  Claim C7: with the interval of 30 seconds of \<open>_wait_for_snapshot_completion\<close> and a maximum
  wait of 60 seconds, when every status query reports a non-terminal status the loop ends in
  its time-out result (the script's time-out exception) after exactly two status queries.
  The clock of the model also moves while a status query is answered; the second query is
  issued when the first one took less than the 30 seconds that remain of the budget after
  the first sleep, which is the scenario's setting of polls 30 seconds apart.
\<close>

theorem two_polls_then_timeout:
  "fst (describe_cluster_snapshots a sid (polls w)) < 30
   \<and> (\<forall>k. \<not> snapshot_available (snd (describe_cluster_snapshots a sid k))
          \<and> \<not> snapshot_failed (snd (describe_cluster_snapshots a sid k))) \<longrightarrow>
   fst (demo_wait_for_snapshot_completion a sid 60 w)
     = Inl (Exception ''Timeout waiting for snapshot completion'')
   \<and> polls (snd (demo_wait_for_snapshot_completion a sid 60 w)) = polls w + 2"
  using demo_two_polls [of a sid w] by blast

text \<open>Witness for C7: the provider that always answers \<open>creating\<close>, at once.\<close>

theorem two_polls_then_timeout_witness:
  "fst (demo_wait_for_snapshot_completion quiet_aws ''s1'' 60 w0)
     = Inl (Exception ''Timeout waiting for snapshot completion'')
   \<and> polls (snd (demo_wait_for_snapshot_completion quiet_aws ''s1'' 60 w0)) = 2"
  using two_polls_then_timeout [where w = w0 and a = quiet_aws and sid = "''s1''"]
  by (simp add: w0_def quiet_polls snapshot_available_def snapshot_failed_def snap_def)

subsection \<open>C8: waiting twice on a settled operation\<close>

text \<open>
  Claim C8: when the status query is a constant function, in particular one that reports a
  terminal status, the result of the loop is the same from every world: it depends neither
  on the clock nor on the number of status queries issued before. The second of two
  successive invocations starts from the world \<open>w'\<close> left by the first one.
\<close>

theorem repeated_wait_same_outcome:
  "((\<forall>k. snd (describe_cluster_snapshots a sid k) = r) \<longrightarrow>
      fst (demo_wait_for_snapshot_completion a sid t w')
        = fst (demo_wait_for_snapshot_completion a sid t w))
   \<and> ((\<forall>k. snd (describe_backup_job a jid k) = j) \<longrightarrow>
      fst (wait_for_backup_completion a jid t w') = fst (wait_for_backup_completion a jid t w))
   \<and> ((\<forall>k. snd (describe_cluster_snapshots a sid k) = r) \<longrightarrow>
      fst (wait_for_snapshot_completion a sid m w') = fst (wait_for_snapshot_completion a sid m w))"
  by (simp add: demo_constant_answer [where r = r] backup_constant_answer [where r = j]
      lambda_constant_answer [where r = r])

text \<open>
  Witness for C8: two successive invocations of each loop on an operation that is already
  finished.
\<close>

theorem repeated_wait_same_outcome_witness:
  "fst (demo_wait_for_snapshot_completion settled_aws ''s1'' 1800
          (snd (demo_wait_for_snapshot_completion settled_aws ''s1'' 1800 w0)))
     = fst (demo_wait_for_snapshot_completion settled_aws ''s1'' 1800 w0)
   \<and> fst (wait_for_backup_completion settled_aws ''j1'' 1800
          (snd (wait_for_backup_completion settled_aws ''j1'' 1800 w0)))
     = fst (wait_for_backup_completion settled_aws ''j1'' 1800 w0)
   \<and> fst (wait_for_snapshot_completion settled_aws ''s1'' 15
          (snd (wait_for_snapshot_completion settled_aws ''s1'' 15 w0)))
     = fst (wait_for_snapshot_completion settled_aws ''s1'' 15 w0)"
  using repeated_wait_same_outcome [where a = settled_aws and sid = "''s1''" and jid = "''j1''"
      and r = "Inr [snap ''s1'' ''available'' 0]" and j = "Inr (job ''COMPLETED'')"
      and t = 1800 and m = 15 and w = w0
      and w' = "snd (demo_wait_for_snapshot_completion settled_aws ''s1'' 1800 w0)"]
    repeated_wait_same_outcome [where a = settled_aws and sid = "''s1''" and jid = "''j1''"
      and r = "Inr [snap ''s1'' ''available'' 0]" and j = "Inr (job ''COMPLETED'')"
      and t = 1800 and m = 15 and w = w0
      and w' = "snd (wait_for_backup_completion settled_aws ''j1'' 1800 w0)"]
    repeated_wait_same_outcome [where a = settled_aws and sid = "''s1''" and jid = "''j1''"
      and r = "Inr [snap ''s1'' ''available'' 0]" and j = "Inr (job ''COMPLETED'')"
      and t = 1800 and m = 15 and w = w0
      and w' = "snd (wait_for_snapshot_completion settled_aws ''s1'' 15 w0)"]
  by (simp add: settled_polls)

subsection \<open>C9: the answers of \<open>lambda_handler\<close>\<close>

lemma wait_loop_never_raises:
  "\<exists>b. fst (wait_loop a sid st t w) = Inr b"
proof (induction w rule: wait_loop_induct [where a = a and sid = sid and st = st and t = t])
  case (stop w)
  then show ?case by (auto simp: wait_loop_stop)
next
  case (available w)
  then show ?case by (auto simp: wait_loop_available)
next
  case (step w w')
  then show ?case by simp
qed

lemma wait_never_raises:
  "wait_for_snapshot_completion a sid m w \<noteq> (Inl e, w')"
  using wait_loop_never_raises [of a sid "clock w" "m * 60" w]
  by (auto simp: wait_for_snapshot_completion_def)

lemma event_get_dict:
  "\<exists>v. event_get (JObj kvs) key dflt = Inr v"
  by (simp add: event_get_def split: option.splits)

lemma handler_body_created:
  assumes c: "event_get event ''cluster_identifier'' (JStr ''aca-redshift-cluster'') = Inr cluster"
    and t: "event_get event ''target_account_id'' JNull = Inr target"
    and tr: "truthy target"
    and id: "get_caller_identity a = Inr account"
    and cr: "create_cluster_snapshot a (''aca-lambda-snapshot-'' @ strftime a (clock w))
               cluster target = None"
  shows "\<exists>result w'. handler_body a event w = (Inr result, w')
     \<and> result ''statusCode'' = Some (JNum 200)
     \<and> result ''snapshot_id'' = Some (JStr (''aca-lambda-snapshot-'' @ strftime a (clock w)))
     \<and> is_text (result ''status'') \<and> result ''error'' = None"
proof -
  obtain kvs where ev: "event = JObj kvs"
    using c by (cases event) (simp_all add: event_get_def)
  obtain r where r: "event_get event ''retention_days'' (JNum 7) = Inr r"
    using event_get_dict [of kvs] ev by blast
  obtain wt where wt: "event_get event ''wait_for_completion'' (JBool False) = Inr wt"
    using event_get_dict [of kvs] ev by blast
  define sid where "sid = ''aca-lambda-snapshot-'' @ strftime a (clock w)"
  define w1 where "w1 = w\<lparr>issued := issued w @ [CreateSnapshot sid cluster target]\<rparr>"
  have cm: "create_manual_snapshot a cluster target w = (Inr sid, w1)"
    using cr by (simp add: create_manual_snapshot_def Let_def sid_def w1_def)
  obtain x w2 where wr: "wait_for_snapshot_completion a sid 10 w1 = (x, w2)"
    by (cases "wait_for_snapshot_completion a sid 10 w1")
  then obtain b where x: "x = Inr b"
    using wait_never_raises [of a sid 10 w1 _ w2] by (cases x) auto
  obtain sh w3 where sr: "share_snapshot_with_account a sid target w2 = (sh, w3)"
    by (cases "share_snapshot_with_account a sid target w2")
  have "\<exists>result w'. handler_body a event w = (Inr result, w')
     \<and> result ''statusCode'' = Some (JNum 200)
     \<and> result ''snapshot_id'' = Some (JStr sid)
     \<and> is_text (result ''status'') \<and> result ''error'' = None"
    using c t r wt tr id cm wr x sr
    by (auto simp: handler_body_def Let_def is_text_def split: prod.splits)
  then show ?thesis unfolding sid_def .
qed


lemma handler_body_not_created:
  assumes "\<not> creation_succeeds a event w"
  shows "\<exists>e w'. handler_body a event w = (Inl e, w')"
proof (cases "event_get event ''cluster_identifier'' (JStr ''aca-redshift-cluster'')")
  case (Inl e)
  then show ?thesis by (simp add: handler_body_def)
next
  case (Inr cluster)
  then obtain kvs where ev: "event = JObj kvs"
    by (cases event) (simp_all add: event_get_def)
  obtain target where t: "event_get event ''target_account_id'' JNull = Inr target"
    using event_get_dict [of kvs] ev by blast
  obtain r where r: "event_get event ''retention_days'' (JNum 7) = Inr r"
    using event_get_dict [of kvs] ev by blast
  obtain wt where wt: "event_get event ''wait_for_completion'' (JBool False) = Inr wt"
    using event_get_dict [of kvs] ev by blast
  show ?thesis
  proof (cases "truthy target")
    case False
    with Inr t r wt show ?thesis by (simp add: handler_body_def)
  next
    case True
    show ?thesis
    proof (cases "get_caller_identity a")
      case (Inl e)
      with Inr t r wt True show ?thesis by (simp add: handler_body_def)
    next
      case account: (Inr account)
      with assms Inr t True
      obtain e where "create_cluster_snapshot a (''aca-lambda-snapshot-'' @ strftime a (clock w))
               cluster target = Some e"
        by (auto simp: creation_succeeds_def)
      then have "\<exists>w1. create_manual_snapshot a cluster target w = (Inl e, w1)"
        by (simp add: create_manual_snapshot_def Let_def)
      with Inr t r wt True account show ?thesis by (auto simp: handler_body_def)
    qed
  qed
qed

lemma handler_body_no_target:
  assumes "\<not> has_target event"
  shows "\<exists>e. handler_body a event w = (Inl e, w)"
proof (cases "event_get event ''cluster_identifier'' (JStr ''aca-redshift-cluster'')")
  case (Inl e)
  then show ?thesis by (simp add: handler_body_def)
next
  case (Inr cluster)
  then obtain kvs where ev: "event = JObj kvs"
    by (cases event) (simp_all add: event_get_def)
  obtain target where t: "event_get event ''target_account_id'' JNull = Inr target"
    using event_get_dict [of kvs] ev by blast
  obtain r where r: "event_get event ''retention_days'' (JNum 7) = Inr r"
    using event_get_dict [of kvs] ev by blast
  obtain wt where wt: "event_get event ''wait_for_completion'' (JBool False) = Inr wt"
    using event_get_dict [of kvs] ev by blast
  from assms t have "\<not> truthy target" by (simp add: has_target_def)
  with Inr t r wt show ?thesis by (simp add: handler_body_def)
qed

lemma lambda_handler_created:
  assumes "creation_succeeds a event w"
  shows "(\<exists>result. fst (lambda_handler a event w) = Inr result)
     \<and> answer_field (lambda_handler a event w) ''statusCode'' = Some (JNum 200)
     \<and> answer_field (lambda_handler a event w) ''snapshot_id''
         = Some (JStr (''aca-lambda-snapshot-'' @ strftime a (clock w)))
     \<and> is_text (answer_field (lambda_handler a event w) ''status'')
     \<and> answer_field (lambda_handler a event w) ''error'' = None"
proof -
  from assms obtain cluster target account where
    "event_get event ''cluster_identifier'' (JStr ''aca-redshift-cluster'') = Inr cluster"
    "event_get event ''target_account_id'' JNull = Inr target"
    "truthy target" "get_caller_identity a = Inr account"
    "create_cluster_snapshot a (''aca-lambda-snapshot-'' @ strftime a (clock w))
               cluster target = None"
    by (auto simp: creation_succeeds_def split: sum.splits)
  from handler_body_created [OF this] obtain result w' where
    "handler_body a event w = (Inr result, w')"
    "result ''statusCode'' = Some (JNum 200)"
    "result ''snapshot_id'' = Some (JStr (''aca-lambda-snapshot-'' @ strftime a (clock w)))"
    "is_text (result ''status'')" "result ''error'' = None"
    by blast
  then show ?thesis by (simp add: lambda_handler_def answer_field_def)
qed

lemma lambda_handler_not_created:
  assumes "\<not> creation_succeeds a event w"
  shows "(\<exists>result. fst (lambda_handler a event w) = Inr result)
     \<and> answer_field (lambda_handler a event w) ''statusCode'' = Some (JNum 500)
     \<and> is_text (answer_field (lambda_handler a event w) ''error'')"
proof -
  from handler_body_not_created [OF assms] obtain e w' where
    "handler_body a event w = (Inl e, w')" by blast
  then show ?thesis by (simp add: lambda_handler_def answer_field_def is_text_def)
qed

lemma lambda_handler_no_target:
  assumes "\<not> has_target event"
  shows "answer_field (lambda_handler a event w) ''statusCode'' = Some (JNum 500)
     \<and> issued (snd (lambda_handler a event w)) = issued w"
proof -
  from handler_body_no_target [OF assms] obtain e where
    "handler_body a event w = (Inl e, w)" by blast
  then show ?thesis by (simp add: lambda_handler_def answer_field_def log_line_def)
qed

text \<open>
  Claim C9 says that \<open>lambda_handler\<close> answers with \<open>statusCode\<close> 500 and an error message
  for every failure. Counterexample: with the test event of the source file and a provider
  that makes the snapshot available but refuses the sharing and the listing of the manual
  snapshots, the handler answers 200 with the status \<open>completed_not_shared\<close>, 0 cleaned-up
  snapshots and no \<open>error\<close> field: \<open>share_snapshot_with_account\<close> returns \<open>False\<close> and
  \<open>cleanup_old_snapshots\<close> returns 0 instead of raising.
\<close>

theorem later_failures_answer_200:
  "answer_field (lambda_handler grudging_aws test_event w0) ''statusCode'' = Some (JNum 200)
   \<and> answer_field (lambda_handler grudging_aws test_event w0) ''status''
       = Some (JStr ''completed_not_shared'')
   \<and> answer_field (lambda_handler grudging_aws test_event w0) ''shared'' = Some (JBool False)
   \<and> answer_field (lambda_handler grudging_aws test_event w0) ''cleaned_up_snapshots''
       = Some (JNum 0)
   \<and> answer_field (lambda_handler grudging_aws test_event w0) ''error'' = None
   \<and> issued (snd (lambda_handler grudging_aws test_event w0))
       = [CreateSnapshot ''aca-lambda-snapshot-20250101-000000''
            (JStr ''aca-redshift-cluster'') (JStr ''058264155998''),
          AuthorizeAccess ''aca-lambda-snapshot-20250101-000000'' (JStr ''058264155998'')]"
  by code_simp

text \<open>
  Claim C9 as amended: for every event, \<open>lambda_handler\<close> never propagates an exception. It
  returns a dictionary with \<open>statusCode\<close> 200, the \<open>snapshot_id\<close>, a \<open>status\<close> and no \<open>error\<close>
  when snapshot creation succeeds, also when the sharing is refused or the clean-up fails
  afterwards. It returns a dictionary with \<open>statusCode\<close> 500 and an \<open>error\<close> message for every
  failure up to and including the creation request: an event that is not a dict or has no
  truthy \<open>target_account_id\<close>, a constructor that raises, a creation request that is refused.
  For an event without a truthy \<open>target_account_id\<close> the answer is the 500 one and no request
  has been sent to the provider. The 200 answer is stated for the invocations that do not
  wait, and for those that wait while no status query reports \<open>failed\<close>.
\<close>

theorem lambda_handler_answers:
  "(\<exists>result. fst (lambda_handler a event w) = Inr result)
   \<and> (creation_succeeds a event w
       \<and> (waits event \<longrightarrow>
            (\<forall>k. \<not> snapshot_failed
                    (snd (describe_cluster_snapshots a
                            (''aca-lambda-snapshot-'' @ strftime a (clock w)) k)))) \<longrightarrow>
        answer_field (lambda_handler a event w) ''statusCode'' = Some (JNum 200)
        \<and> answer_field (lambda_handler a event w) ''snapshot_id''
            = Some (JStr (''aca-lambda-snapshot-'' @ strftime a (clock w)))
        \<and> is_text (answer_field (lambda_handler a event w) ''status'')
        \<and> answer_field (lambda_handler a event w) ''error'' = None)
   \<and> (\<not> creation_succeeds a event w \<longrightarrow>
        answer_field (lambda_handler a event w) ''statusCode'' = Some (JNum 500)
        \<and> is_text (answer_field (lambda_handler a event w) ''error''))
   \<and> (\<not> has_target event \<longrightarrow>
        answer_field (lambda_handler a event w) ''statusCode'' = Some (JNum 500)
        \<and> issued (snd (lambda_handler a event w)) = issued w)"
  using lambda_handler_created [of a event w] lambda_handler_not_created [of a event w]
    lambda_handler_no_target [of event a w]
  by (cases "creation_succeeds a event w") auto

text \<open>
  Witness for the amended C9: the test event of the source file, which waits, with a provider
  that accepts every request and answers \<open>creating\<close>, and with the provider that refuses the
  sharing and the listing; and the event that names no target.
\<close>

theorem lambda_handler_answers_witness:
  "answer_field (lambda_handler quiet_aws test_event w0) ''statusCode'' = Some (JNum 200)
   \<and> answer_field (lambda_handler quiet_aws test_event w0) ''snapshot_id''
       = Some (JStr ''aca-lambda-snapshot-20250101-000000'')
   \<and> answer_field (lambda_handler grudging_aws test_event w0) ''statusCode'' = Some (JNum 200)
   \<and> answer_field (lambda_handler quiet_aws event_without_target w0) ''statusCode''
       = Some (JNum 500)
   \<and> issued (snd (lambda_handler quiet_aws event_without_target w0)) = []"
proof -
  have ok: "creation_succeeds quiet_aws test_event w0"
    by (simp add: creation_succeeds_def event_get_def test_event_def quiet_aws_def)
  have ok': "creation_succeeds grudging_aws test_event w0"
    by (simp add: creation_succeeds_def event_get_def test_event_def grudging_aws_def
        settled_aws_def quiet_aws_def)
  have nf: "\<not> snapshot_failed (snd (describe_cluster_snapshots quiet_aws sid k))" for sid k
    by (simp add: quiet_polls snapshot_failed_def snap_def)
  have nf': "\<not> snapshot_failed (snd (describe_cluster_snapshots grudging_aws sid k))" for sid k
    by (simp add: grudging_aws_def settled_polls snapshot_failed_def snap_def)
  have no: "\<not> has_target event_without_target"
    by (simp add: has_target_def event_get_def event_without_target_def)
  have f: "strftime quiet_aws (clock w0) = ''20250101-000000''" "issued w0 = []"
    by (simp_all add: quiet_aws_def w0_def)
  from lambda_handler_answers [of quiet_aws test_event w0]
    lambda_handler_answers [of grudging_aws test_event w0]
    lambda_handler_answers [of quiet_aws event_without_target w0]
  show ?thesis
    using ok ok' no by (simp add: f nf nf')
qed

text \<open>
  The failure status that the wait loop swallows (C1) reaches the handler in the same way:
  with snapshots that report \<open>failed\<close>, the handler waits its ten minutes, twenty status
  queries, and answers 200 with the status \<open>snapshot_in_progress\<close>.
\<close>

lemma failed_snapshot_answers_in_progress:
  "answer_field (lambda_handler broken_aws test_event w0) ''statusCode'' = Some (JNum 200)
   \<and> answer_field (lambda_handler broken_aws test_event w0) ''status''
       = Some (JStr ''snapshot_in_progress'')
   \<and> polls (snd (lambda_handler broken_aws test_event w0)) = 20"
  by code_simp

subsection \<open>C10: what \<open>cleanup_old_snapshots\<close> deletes\<close>

lemma cleanup_loop_effect:
  "issued (snd (cleanup_loop a cutoff snaps n w))
     = issued w @ map (\<lambda>s. DeleteSnapshot (SnapshotIdentifier s)) (filter (stale cutoff) snaps)
   \<and> deleted (snd (cleanup_loop a cutoff snaps n w))
     = deleted w @ filter (\<lambda>sid. delete_cluster_snapshot a sid = None)
                     (map SnapshotIdentifier (filter (stale cutoff) snaps))
   \<and> fst (cleanup_loop a cutoff snaps n w)
     = n + length (filter (\<lambda>sid. delete_cluster_snapshot a sid = None)
                     (map SnapshotIdentifier (filter (stale cutoff) snaps)))"
proof (induction snaps arbitrary: n w)
  case Nil
  show ?case by simp
next
  case (Cons s rest)
  show ?case
  proof (cases "stale cutoff s")
    case False
    then have "cleanup_loop a cutoff (s # rest) n w = cleanup_loop a cutoff rest n w"
      by (auto simp: stale_def Let_def)
    with False Cons.IH [of n w] show ?thesis by simp
  next
    case True
    show ?thesis
    proof (cases "delete_cluster_snapshot a (SnapshotIdentifier s)")
      case None
      let ?w1 = "w\<lparr>issued := issued w @ [DeleteSnapshot (SnapshotIdentifier s)],
                    deleted := deleted w @ [SnapshotIdentifier s]\<rparr>"
      have "cleanup_loop a cutoff (s # rest) n w = cleanup_loop a cutoff rest (n + 1) ?w1"
        using True None by (simp add: stale_def Let_def delete_snapshot_def)
      with True None Cons.IH [of "n + 1" ?w1] show ?thesis by simp
    next
      case (Some e)
      let ?w1 = "log_line (''Could not delete snapshot '' @ SnapshotIdentifier s @ '': '' @ str e)
                   (w\<lparr>issued := issued w @ [DeleteSnapshot (SnapshotIdentifier s)]\<rparr>)"
      have "cleanup_loop a cutoff (s # rest) n w = cleanup_loop a cutoff rest n ?w1"
        using True Some by (simp add: stale_def Let_def delete_snapshot_def)
      moreover have "issued ?w1 = issued w @ [DeleteSnapshot (SnapshotIdentifier s)]"
        "deleted ?w1 = deleted w"
        by (simp_all add: log_line_def)
      ultimately show ?thesis using True Some Cons.IH [of n ?w1] by simp
    qed
  qed
qed

lemma week_below_float_limit:
  "\<bar>7 * 24 * 3600\<bar> < float_limit"
  by (simp add: float_limit_def)

text \<open>
  Claim C10: \<open>cleanup_old_snapshots\<close> sends delete requests only for the listed snapshots
  whose identifier starts with \<open>aca-lambda-snapshot-\<close> and whose creation time is before the
  cutoff, \<open>retention_days\<close> days before now; it returns the number of snapshots deleted, and
  0 when listing fails. When the listing succeeds and the retention converts to a float, the
  requests sent are exactly the delete requests for those snapshots, in the order of the
  listing, the snapshots deleted are those among them whose request the provider accepted,
  and the result is their number; the clock and the creation times are timestamps of
  \<open>datetime\<close> objects. When the listing fails, or when the retention is so large that
  line 119 raises \<open>OverflowError\<close>, nothing is sent, nothing is deleted and the result is 0.
\<close>

theorem cleanup_deletes_only_stale_lambda_snapshots:
  "(describe_manual_snapshots a cluster = Inr snaps
    \<and> \<bar>days * 24 * 3600\<bar> < float_limit
    \<and> datetime_range (clock w)
    \<and> list_all (\<lambda>s. datetime_range (SnapshotCreateTime s)) snaps \<longrightarrow>
      issued (snd (cleanup_old_snapshots a cluster (JNum days) w))
        = issued w @ map (\<lambda>s. DeleteSnapshot (SnapshotIdentifier s))
                       (filter (stale (clock w - days * 24 * 3600)) snaps)
      \<and> deleted (snd (cleanup_old_snapshots a cluster (JNum days) w))
        = deleted w @ filter (\<lambda>sid. delete_cluster_snapshot a sid = None)
                        (map SnapshotIdentifier (filter (stale (clock w - days * 24 * 3600)) snaps))
      \<and> fst (cleanup_old_snapshots a cluster (JNum days) w)
        = length (filter (\<lambda>sid. delete_cluster_snapshot a sid = None)
                    (map SnapshotIdentifier (filter (stale (clock w - days * 24 * 3600)) snaps))))
   \<and> (describe_manual_snapshots a cluster = Inl e \<longrightarrow>
      fst (cleanup_old_snapshots a cluster (JNum days) w) = 0
      \<and> issued (snd (cleanup_old_snapshots a cluster (JNum days) w)) = issued w
      \<and> deleted (snd (cleanup_old_snapshots a cluster (JNum days) w)) = deleted w)
   \<and> (\<not> \<bar>days * 24 * 3600\<bar> < float_limit \<longrightarrow>
      fst (cleanup_old_snapshots a cluster (JNum days) w) = 0
      \<and> issued (snd (cleanup_old_snapshots a cluster (JNum days) w)) = issued w
      \<and> deleted (snd (cleanup_old_snapshots a cluster (JNum days) w)) = deleted w)"
proof (intro conjI impI)
  assume "describe_manual_snapshots a cluster = Inr snaps
    \<and> \<bar>days * 24 * 3600\<bar> < float_limit
    \<and> datetime_range (clock w)
    \<and> list_all (\<lambda>s. datetime_range (SnapshotCreateTime s)) snaps"
  then have c: "cleanup_old_snapshots a cluster (JNum days) w
      = cleanup_loop a (clock w - days * 24 * 3600) snaps 0 w"
    by (simp add: cleanup_old_snapshots_def)
  show "issued (snd (cleanup_old_snapshots a cluster (JNum days) w))
        = issued w @ map (\<lambda>s. DeleteSnapshot (SnapshotIdentifier s))
                       (filter (stale (clock w - days * 24 * 3600)) snaps)"
    and "deleted (snd (cleanup_old_snapshots a cluster (JNum days) w))
        = deleted w @ filter (\<lambda>sid. delete_cluster_snapshot a sid = None)
                        (map SnapshotIdentifier (filter (stale (clock w - days * 24 * 3600)) snaps))"
    and "fst (cleanup_old_snapshots a cluster (JNum days) w)
        = length (filter (\<lambda>sid. delete_cluster_snapshot a sid = None)
                    (map SnapshotIdentifier (filter (stale (clock w - days * 24 * 3600)) snaps)))"
    unfolding c by (simp_all only: cleanup_loop_effect add_0)
next
  assume "describe_manual_snapshots a cluster = Inl e"
  then show "fst (cleanup_old_snapshots a cluster (JNum days) w) = 0"
    and "issued (snd (cleanup_old_snapshots a cluster (JNum days) w)) = issued w"
    and "deleted (snd (cleanup_old_snapshots a cluster (JNum days) w)) = deleted w"
    by (simp_all add: cleanup_old_snapshots_def log_line_def)
next
  assume "\<not> \<bar>days * 24 * 3600\<bar> < float_limit"
  then show "fst (cleanup_old_snapshots a cluster (JNum days) w) = 0"
    and "issued (snd (cleanup_old_snapshots a cluster (JNum days) w)) = issued w"
    and "deleted (snd (cleanup_old_snapshots a cluster (JNum days) w)) = deleted w"
    by (simp_all add: cleanup_old_snapshots_def log_line_def split: sum.splits)
qed

text \<open>
  Witness for C10: the cluster with four manual snapshots, a retention of 7 days and the clock
  at 1000000 seconds, where the cutoff is 395200; and a retention of \<open>- (10 ^ 306)\<close> days,
  whose product with 86400 is beyond the floats.
\<close>

theorem cleanup_deletes_only_stale_lambda_snapshots_witness:
  "issued (snd (cleanup_old_snapshots cluttered_aws (JStr ''aca-redshift-cluster'') (JNum 7)
                 (w0\<lparr>clock := 1000000\<rparr>)))
     = [DeleteSnapshot ''aca-lambda-snapshot-20240101-000000'',
        DeleteSnapshot ''aca-lambda-snapshot-20240102-000000'']
   \<and> deleted (snd (cleanup_old_snapshots cluttered_aws (JStr ''aca-redshift-cluster'') (JNum 7)
                 (w0\<lparr>clock := 1000000\<rparr>)))
     = [''aca-lambda-snapshot-20240101-000000'']
   \<and> fst (cleanup_old_snapshots cluttered_aws (JStr ''aca-redshift-cluster'') (JNum 7)
                 (w0\<lparr>clock := 1000000\<rparr>)) = 1
   \<and> fst (cleanup_old_snapshots cluttered_aws (JStr ''aca-redshift-cluster'')
            (JNum (- (10 ^ 306))) (w0\<lparr>clock := 1000000\<rparr>)) = 0
   \<and> issued (snd (cleanup_old_snapshots cluttered_aws (JStr ''aca-redshift-cluster'')
                 (JNum (- (10 ^ 306))) (w0\<lparr>clock := 1000000\<rparr>))) = []"
proof -
  have h: "describe_manual_snapshots cluttered_aws (JStr ''aca-redshift-cluster'')
      = Inr [snap ''aca-lambda-snapshot-20240101-000000'' ''available'' 100000,
             snap ''aca-lambda-snapshot-20250101-000000'' ''available'' 900000,
             snap ''demo-snapshot-20240101-000000'' ''available'' 100000,
             snap ''aca-lambda-snapshot-20240102-000000'' ''available'' 186400]
      \<and> \<bar>7 * 24 * 3600\<bar> < float_limit
      \<and> datetime_range (clock (w0\<lparr>clock := 1000000\<rparr>))
      \<and> list_all (\<lambda>s. datetime_range (SnapshotCreateTime s))
           [snap ''aca-lambda-snapshot-20240101-000000'' ''available'' 100000,
            snap ''aca-lambda-snapshot-20250101-000000'' ''available'' 900000,
            snap ''demo-snapshot-20240101-000000'' ''available'' 100000,
            snap ''aca-lambda-snapshot-20240102-000000'' ''available'' 186400]"
    using week_below_float_limit
    by (simp add: cluttered_aws_def quiet_aws_def datetime_range_def snap_def)
  have d: "delete_cluster_snapshot cluttered_aws sid =
      (if sid = ''aca-lambda-snapshot-20240102-000000''
       then Some (ClientError ''InvalidClusterSnapshotState'') else None)" for sid
    by (simp add: cluttered_aws_def quiet_aws_def)
  have big: "\<not> \<bar>- (10 ^ 306) * 24 * 3600\<bar> < float_limit"
    by (simp add: float_limit_def)
  note T = cleanup_deletes_only_stale_lambda_snapshots [where e = "ClientError ''AccessDenied''"
      and days = 7 and w = "w0\<lparr>clock := 1000000\<rparr>", THEN conjunct1, THEN mp, OF h]
  note U = cleanup_deletes_only_stale_lambda_snapshots [where a = cluttered_aws
      and cluster = "JStr ''aca-redshift-cluster''" and e = "ClientError ''AccessDenied''"
      and days = "- (10 ^ 306)" and w = "w0\<lparr>clock := 1000000\<rparr>",
      THEN conjunct2, THEN conjunct2, THEN mp, OF big]
  from T U show ?thesis
    by (simp add: d w0_def stale_def snap_def)
qed

end
